theory Spec2Isabelle
  imports Main "HOL-Library.Word"
begin

unbundle bit_operations_syntax

section \<open>Bytes, buffers and errors\<close>

text \<open>
  A Node \<open>Buffer\<close> is a list of bytes.  JavaScript \<open>bigint\<close> values are
  unbounded integers, hence \<open>int\<close>.
\<close>

type_synonym byte = "8 word"
type_synonym Buffer = "byte list"

text \<open>
  The source throws plain \<open>Error\<close> objects that differ in their message only.  The
  constructors below name the error kinds of the specification; the message each one
  stands for is given where it is thrown.
\<close>

datatype error =
    InvalidSignatureError
  | InvalidSignatureLengthError
  | NotSignedError
  | FieldBoundsError
  | FeeOrderingError
  | AccessListShapeError
  | BlobCountExceededError
  | VersionedHashFormatError
  | WrapperShapeError
  | NegativeBigIntError
  | InvalidAddressError
  | ChainIdMismatchError
  | EIPNotEnabledError
  | InitCodeSizeError
  | MethodNotImplemented
  | TypeError

section \<open>Helpers of \<open>packages/util/src/bytes.ts\<close> and \<open>constants.ts\<close>\<close>

text \<open>
  Modelled from the spec: \<open>bufferToBigInt\<close> of \<open>./bytes\<close>, which is not under
  \<open>src/\<close>: the integer value of a byte string, big-endian; the empty buffer is 0.
\<close>

definition bufferToBigInt :: "Buffer \<Rightarrow> int" where
  "bufferToBigInt buf = foldl (\<lambda>acc b. acc * 256 + uint b) 0 buf"

text \<open>
  Modelled from the spec: \<open>bufferToInt\<close> of \<open>./bytes\<close>, which is not under
  \<open>src/\<close>: the same value as a JavaScript number.  The source applies it to a slice
  of at most one byte, where no precision is lost.
\<close>

definition bufferToInt :: "Buffer \<Rightarrow> int" where
  "bufferToInt buf = bufferToBigInt buf"

text \<open>
  Modelled from the spec: \<open>setLengthLeft\<close> of \<open>./bytes\<close>, which is not under
  \<open>src/\<close>: "left-zero-padded" to the given length; a longer buffer keeps its last
  \<open>n\<close> bytes.
\<close>

definition setLengthLeft :: "Buffer \<Rightarrow> nat \<Rightarrow> Buffer" where
  "setLengthLeft msg n =
     (if length msg < n then replicate (n - length msg) 0 @ msg
      else drop (length msg - n) msg)"

text \<open>The big-endian digits of a natural number in base 256, none for 0.\<close>

fun be_bytes :: "nat \<Rightarrow> Buffer" where
  "be_bytes n = (if n = 0 then [] else be_bytes (n div 256) @ [of_nat (n mod 256)])"

declare be_bytes.simps [simp del]

text \<open>
  Modelled from the spec: \<open>toBuffer\<close> of \<open>./bytes\<close> at a \<open>bigint\<close>, which is not
  under \<open>src/\<close>: the "raw \<open>v\<close> byte(s)", that is the big-endian bytes of the value's
  even-length hexadecimal text, so that 0 is the single byte 0; a negative value is
  refused.
\<close>

definition toBuffer :: "int \<Rightarrow> error + Buffer" where
  "toBuffer v =
     (if v < 0 then Inl NegativeBigIntError
      else if v = 0 then Inr [0]
      else Inr (be_bytes (nat v)))"

text \<open>
  Modelled from the spec: \<open>bigIntToUnpaddedBuffer\<close> of \<open>./bytes\<close>, which is not
  under \<open>src/\<close>: the big-endian bytes without leading zero bytes; 0 is the empty buffer.
\<close>

definition bigIntToUnpaddedBuffer :: "int \<Rightarrow> Buffer" where
  "bigIntToUnpaddedBuffer v = be_bytes (nat v)"

text \<open>
  Modelled from the spec: \<open>bufferToHex\<close> and \<open>toBuffer\<close> at a string, of
  \<open>./bytes\<close>, which are not under \<open>src/\<close>.  The specification passes an RPC
  signature around as a byte string ("65-byte string", \<open>decodeRpcSignature(bytes)\<close>);
  the \<open>0x\<close>-prefixed hexadecimal text of the source is a second spelling of these
  bytes, so both translations are the identity on byte strings.
\<close>

type_synonym hex_string = "byte list"

definition bufferToHex :: "Buffer \<Rightarrow> hex_string" where
  "bufferToHex buf = buf"

definition hexToBuffer :: "hex_string \<Rightarrow> Buffer" where
  "hexToBuffer sig = sig"

text \<open>
  Modelled from the spec: the constants \<open>SECP256K1_ORDER\<close> and
  \<open>SECP256K1_ORDER_DIV_2\<close> of \<open>./constants\<close>, which is not under \<open>src/\<close>: the
  order of the secp256k1 group and its half (an integer division).
\<close>

definition SECP256K1_ORDER :: int where
  "SECP256K1_ORDER =
     115792089237316195423570985008687907852837564279074904382605163141518161494337"

definition SECP256K1_ORDER_DIV_2 :: int where
  "SECP256K1_ORDER_DIV_2 = SECP256K1_ORDER div 2"

section \<open>\<open>packages/util/src/signature.ts\<close>\<close>

text \<open>
  The fields of the interface \<open>ECDSASignature\<close> carry the prefix \<open>sig_\<close>, since
  \<open>v\<close>, \<open>r\<close> and \<open>s\<close> name the arguments of every function below.
\<close>

record ECDSASignature =
  sig_v :: int
  sig_r :: Buffer
  sig_s :: Buffer
  sig_recovery :: int

text \<open>
  The remainder operator \<open>%\<close> of JavaScript on \<open>bigint\<close>: it truncates towards
  zero, so the result has the sign of the dividend.
\<close>

definition bigint_rem :: "int \<Rightarrow> int \<Rightarrow> int" where
  "bigint_rem a b = sgn a * (\<bar>a\<bar> mod \<bar>b\<bar>)"

definition calculateSigRecovery :: "int \<Rightarrow> int" where
  "calculateSigRecovery v =
     (if v > 28 \<and> v < 35 then v
      else if v < 27 \<and> v > 1 then v
      else if v = 27 \<or> v = 28 then v - 27
      else if v = 0 \<or> v = 1 then v
      else if bigint_rem (0 - 35 - v) 2 = 0 then 0
      else 1)"

definition isValidSigRecovery :: "int \<Rightarrow> bool" where
  "isValidSigRecovery recovery \<longleftrightarrow> recovery = 0 \<or> recovery = 1"

text \<open>
  \<open>recoverPublicKey\<close> belongs to the external secp256k1 library; it is a parameter
  here.  It receives the message hash, the 64-byte signature and the recovery id, and
  may itself fail.
\<close>

type_synonym recover_fn = "Buffer \<Rightarrow> Buffer \<Rightarrow> int \<Rightarrow> error + Buffer"

definition ecrecover :: "recover_fn \<Rightarrow> Buffer \<Rightarrow> int \<Rightarrow> Buffer \<Rightarrow> Buffer \<Rightarrow> error + Buffer" where
  "ecrecover recoverPublicKey msgHash v r s =
     (let signature = take 64 (setLengthLeft r 32 @ setLengthLeft s 32);
          recovery = calculateSigRecovery v
      in if \<not> isValidSigRecovery recovery then Inl InvalidSignatureError
         else (case recoverPublicKey msgHash signature recovery of
                 Inl e \<Rightarrow> Inl e
               | Inr senderPubKey \<Rightarrow> Inr (drop 1 senderPubKey)))"

definition toRpcSig :: "int \<Rightarrow> Buffer \<Rightarrow> Buffer \<Rightarrow> error + hex_string" where
  "toRpcSig v r s =
     (let recovery = calculateSigRecovery v
      in if \<not> isValidSigRecovery recovery then Inl InvalidSignatureError
         else (case toBuffer v of
                 Inl e \<Rightarrow> Inl e
               | Inr vb \<Rightarrow> Inr (bufferToHex (setLengthLeft r 32 @ setLengthLeft s 32 @ vb))))"

text \<open>
  \<open>ss[0] |= 0x80\<close> on a copy of \<open>s\<close>; on an empty buffer the assignment has no
  effect.
\<close>

definition set_top_bit :: "Buffer \<Rightarrow> Buffer" where
  "set_top_bit s = (case s of [] \<Rightarrow> [] | b # bs \<Rightarrow> (b OR 0x80) # bs)"

definition toCompactSig :: "int \<Rightarrow> Buffer \<Rightarrow> Buffer \<Rightarrow> error + hex_string" where
  "toCompactSig v r s =
     (let recovery = calculateSigRecovery v
      in if \<not> isValidSigRecovery recovery then Inl InvalidSignatureError
         else
           (let ss = (if (v > 28 \<and> bigint_rem v 2 = 1) \<or> v = 1 \<or> v = 28
                      then set_top_bit s else s)
            in Inr (bufferToHex (setLengthLeft r 32 @ setLengthLeft ss 32))))"

text \<open>\<open>s[0] &= 0x7f\<close> on the slice holding \<open>s\<close>.\<close>

definition clear_top_bit :: "Buffer \<Rightarrow> Buffer" where
  "clear_top_bit s = (case s of [] \<Rightarrow> [] | b # bs \<Rightarrow> (b AND 0x7f) # bs)"

text \<open>\<open>buf.slice(a, b)\<close> for \<open>a \<le> b\<close>.\<close>

definition slice :: "Buffer \<Rightarrow> nat \<Rightarrow> nat \<Rightarrow> Buffer" where
  "slice buf a b = take (b - a) (drop a buf)"

definition fromRpcSig :: "hex_string \<Rightarrow> error + ECDSASignature" where
  "fromRpcSig sig =
     (let buf = hexToBuffer sig
      in if length buf \<ge> 65 then
           (let r = slice buf 0 32;
                s = slice buf 32 64;
                v = bufferToBigInt (drop 64 buf);
                recovery = calculateSigRecovery v;
                v' = (if v < 27 then v + 27 else v)
            in Inr \<lparr>sig_v = v', sig_r = r, sig_s = s, sig_recovery = recovery\<rparr>)
         else if length buf = 64 then
           (let r = slice buf 0 32;
                s = slice buf 32 64;
                v = drop_bit 7 (bufferToInt (slice buf 32 33));
                s' = clear_top_bit s;
                recovery = calculateSigRecovery v;
                v' = (if v < 27 then v + 27 else v)
            in Inr \<lparr>sig_v = v', sig_r = r, sig_s = s', sig_recovery = recovery\<rparr>)
         else Inl InvalidSignatureLengthError)"

text \<open>\<open>homesteadOrLater: boolean = true\<close>: an absent argument is \<open>True\<close>.\<close>

definition isValidSignature :: "int \<Rightarrow> Buffer \<Rightarrow> Buffer \<Rightarrow> bool option \<Rightarrow> bool" where
  "isValidSignature v r s homesteadOrLater =
     (let hol = (case homesteadOrLater of None \<Rightarrow> True | Some b \<Rightarrow> b)
      in if length r \<noteq> 32 \<or> length s \<noteq> 32 then False
         else if \<not> isValidSigRecovery (calculateSigRecovery v) then False
         else
           (let rBigInt = bufferToBigInt r; sBigInt = bufferToBigInt s
            in if rBigInt = 0 \<or> rBigInt \<ge> SECP256K1_ORDER
                  \<or> sBigInt = 0 \<or> sBigInt \<ge> SECP256K1_ORDER then False
               else if hol \<and> sBigInt \<ge> SECP256K1_ORDER_DIV_2 then False
               else True))"

text \<open>
  The precedence of the recovery-identifier normalizer as section 4.2 of the
  specification words it, with the mathematical \<open>mod\<close>.
\<close>

definition normalize_spec :: "int \<Rightarrow> int" where
  "normalize_spec v =
     (if 28 < v \<and> v < 35 then v
      else if 1 < v \<and> v < 27 then v
      else if v \<in> {27, 28} then v - 27
      else if v \<in> {0, 1} then v
      else if (0 - 35 - v) mod 2 = 0 then 0
      else 1)"

section \<open>Collaborators of the blob transaction\<close>

text \<open>
  Modelled from the spec: \<open>MAX_INTEGER\<close> of \<open>@ethereumjs/util\<close>, which is not under
  \<open>src/\<close>: "the protocol's maximum integer bound (2^256-1)".
\<close>

definition MAX_INTEGER :: int where
  "MAX_INTEGER = 2 ^ 256 - 1"

text \<open>
  Modelled from the spec: \<open>Common\<close> of \<open>@ethereumjs/common\<close>, which is not under
  \<open>src/\<close>: the "fork-activation oracle" with \<open>isActivated(eipNumber)\<close> and
  \<open>chainId()\<close>; it also answers whether the homestead-or-later policy holds and gives
  the initcode size limit (0 when there is none).
\<close>

record Common =
  common_chainId :: nat
  common_eips :: "nat list"
  common_homestead :: bool
  common_maxInitCodeSize :: nat

definition isActivatedEIP :: "Common \<Rightarrow> nat \<Rightarrow> bool" where
  "isActivatedEIP common eip \<longleftrightarrow> eip \<in> set (common_eips common)"

text \<open>
  The constants \<open>BLOB_COMMITMENT_VERSION_KZG\<close> and \<open>LIMIT_BLOBS_PER_TX\<close> of
  \<open>./types\<close> and the default \<open>Common\<close> that \<open>_getCommon\<close> builds for a chain id when
  the caller passes none are not under \<open>src/\<close>; they are parameters.
\<close>

record tx_params =
  BLOB_COMMITMENT_VERSION_KZG :: byte
  LIMIT_BLOBS_PER_TX :: nat
  DEFAULT_COMMON :: "int option \<Rightarrow> Common"

record TxOptions =
  opt_common :: "Common option"
  opt_freeze :: "bool option"

type_synonym AccessListBufferItem = "Buffer \<times> Buffer list"
type_synonym AccessListBuffer = "AccessListBufferItem list"

text \<open>
  \<open>BlobEIP4844TxData\<close>: every field that the interface declares optional is an
  \<open>option\<close>, \<open>None\<close> for \<open>undefined\<close>.  Numeric fields hold a \<open>bigint\<close>; the address and
  the data hold bytes.
\<close>

record BlobEIP4844TxData =
  d_chainId :: "int option"
  d_nonce :: "int option"
  d_gasLimit :: "int option"
  d_to :: "Buffer option"
  d_value :: "int option"
  d_data :: "Buffer option"
  d_accessList :: "AccessListBuffer option"
  d_maxPriorityFeePerGas :: "int option"
  d_maxFeePerGas :: "int option"
  d_maxFeePerDataGas :: int
  d_versionedHashes :: "Buffer list"
  d_v :: "int option"
  d_r :: "int option"
  d_s :: "int option"

text \<open>
  The instance.  \<open>tx_frozen\<close> records whether \<open>Object.freeze\<close> was applied to it.  The
  JSON view of the access list, the capability list and the stored options are derived
  data and are left out.
\<close>

record BlobEIP4844Transaction =
  tx_nonce :: int
  tx_gasLimit :: int
  tx_to :: "Buffer option"
  tx_value :: int
  tx_data :: Buffer
  tx_v :: "int option"
  tx_r :: "int option"
  tx_s :: "int option"
  tx_common :: Common
  tx_chainId :: int
  tx_accessList :: AccessListBuffer
  tx_maxPriorityFeePerGas :: int
  tx_maxFeePerGas :: int
  tx_maxFeePerDataGas :: int
  tx_versionedHashes :: "Buffer list"
  tx_frozen :: bool

text \<open>
  The value that the caller supplies for an optional numeric field of the transaction
  data; an absent field counts as 0.
\<close>

definition supplied :: "int option \<Rightarrow> int" where
  "supplied x = (case x of None \<Rightarrow> 0 | Some n \<Rightarrow> n)"

text \<open>
  Modelled from the spec: \<open>bufferToBigInt(toBuffer(x))\<close> at a numeric field of the
  transaction data, with \<open>toBuffer\<close> and \<open>bufferToBigInt\<close> of \<open>./bytes\<close>, which is not
  under \<open>src/\<close>: an absent field gives the empty buffer and so the value 0.
\<close>

definition bigIntField :: "int option \<Rightarrow> error + int" where
  "bigIntField x =
     (case x of
        None \<Rightarrow> Inr (bufferToBigInt [])
      | Some n \<Rightarrow> (case toBuffer n of Inl e \<Rightarrow> Inl e | Inr b \<Rightarrow> Inr (bufferToBigInt b)))"

text \<open>
  Modelled from the spec: the signature fields in the constructor of
  \<open>BaseTransaction\<close>, which is not under \<open>src/\<close>: "a transaction is signed iff its
  Signature is present"; a field is present when its buffer is not empty.
\<close>

definition sigField :: "int option \<Rightarrow> error + int option" where
  "sigField x =
     (case x of
        None \<Rightarrow> Inr None
      | Some n \<Rightarrow>
          (case toBuffer n of
             Inl e \<Rightarrow> Inl e
           | Inr b \<Rightarrow> Inr (if length b > 0 then Some (bufferToBigInt b) else None)))"

text \<open>
  Modelled from the spec: \<open>_validateCannotExceedMaxInteger\<close> of \<open>BaseTransaction\<close>,
  which is not under \<open>src/\<close>: "no field exceeds the maximum integer bound".
\<close>

definition validateCannotExceedMaxInteger :: "int list \<Rightarrow> error option" where
  "validateCannotExceedMaxInteger vals =
     (if list_ex (\<lambda>x. x > MAX_INTEGER) vals then Some FieldBoundsError else None)"

record BaseFields =
  b_nonce :: int
  b_gasLimit :: int
  b_to :: "Buffer option"
  b_value :: int
  b_data :: Buffer
  b_v :: "int option"
  b_r :: "int option"
  b_s :: "int option"

text \<open>
  Modelled from the spec: the constructor of \<open>BaseTransaction\<close>, which is not under
  \<open>src/\<close>: it reads the common fields \<open>nonce\<close>, \<open>gasLimit\<close>, \<open>to\<close>, \<open>value\<close>, \<open>data\<close>
  and the signature triple from the transaction data; "\<open>to\<close> is either absent (contract
  creation) or a well-formed address" of 20 bytes; "all numeric fields fit within the
  protocol's maximum integer bound".
\<close>

definition BaseTransaction_constructor :: "BlobEIP4844TxData \<Rightarrow> error + BaseFields" where
  "BaseTransaction_constructor txData =
     (case bigIntField (d_nonce txData) of Inl e \<Rightarrow> Inl e | Inr nonce \<Rightarrow>
      case bigIntField (d_gasLimit txData) of Inl e \<Rightarrow> Inl e | Inr gasLimit \<Rightarrow>
      case bigIntField (d_value txData) of Inl e \<Rightarrow> Inl e | Inr val \<Rightarrow>
      case sigField (d_v txData) of Inl e \<Rightarrow> Inl e | Inr v \<Rightarrow>
      case sigField (d_r txData) of Inl e \<Rightarrow> Inl e | Inr r \<Rightarrow>
      case sigField (d_s txData) of Inl e \<Rightarrow> Inl e | Inr s \<Rightarrow>
      (let toB = (case d_to txData of None \<Rightarrow> [] | Some a \<Rightarrow> a);
           dat = (case d_data txData of None \<Rightarrow> [] | Some b \<Rightarrow> b)
       in if length toB > 0 \<and> length toB \<noteq> 20 then Inl InvalidAddressError
          else
            (case validateCannotExceedMaxInteger
                    ([val, gasLimit, nonce] @ (case r of None \<Rightarrow> [] | Some x \<Rightarrow> [x])
                       @ (case s of None \<Rightarrow> [] | Some x \<Rightarrow> [x])) of
               Some e \<Rightarrow> Inl e
             | None \<Rightarrow>
                 Inr \<lparr>b_nonce = nonce, b_gasLimit = gasLimit,
                      b_to = (if length toB > 0 then Some toB else None),
                      b_value = val, b_data = dat, b_v = v, b_r = r, b_s = s\<rparr>)))"

text \<open>
  Modelled from the spec: \<open>_getCommon\<close> of \<open>BaseTransaction\<close>, which is not under
  \<open>src/\<close>: the chain configuration of the transaction is the one the caller passes,
  whose chain id must be the chain id of the transaction data when both are given, and
  the default one otherwise.
\<close>

definition getCommon :: "tx_params \<Rightarrow> Common option \<Rightarrow> int option \<Rightarrow> error + Common" where
  "getCommon params common chainId =
     (case chainId of
        None \<Rightarrow> Inr (case common of None \<Rightarrow> DEFAULT_COMMON params None | Some c \<Rightarrow> c)
      | Some cid \<Rightarrow>
          (case bigIntField (Some cid) of
             Inl e \<Rightarrow> Inl e
           | Inr chainIdBigInt \<Rightarrow>
               (case common of
                  None \<Rightarrow> Inr (DEFAULT_COMMON params (Some chainIdBigInt))
                | Some c \<Rightarrow>
                    if int (common_chainId c) \<noteq> chainIdBigInt then Inl ChainIdMismatchError
                    else Inr c)))"

text \<open>
  Modelled from the spec: \<open>AccessLists.verifyAccessList\<close> of \<open>./util\<close>, which is not
  under \<open>src/\<close>: "every entry's address must be exactly 20 bytes and every storage key
  exactly 32 bytes; malformed entries fail construction".
\<close>

definition verifyAccessList :: "AccessListBuffer \<Rightarrow> error option" where
  "verifyAccessList accessList =
     (if list_all (\<lambda>item. length (fst item) = 20 \<and> list_all (\<lambda>key. length key = 32) (snd item))
           accessList
      then None else Some AccessListShapeError)"

text \<open>
  Modelled from the spec: \<open>_validateYParity\<close> and \<open>_validateHighS\<close> of
  \<open>BaseTransaction\<close>, which is not under \<open>src/\<close>: a present \<open>v\<close> is the parity bit 0 or
  1, and "under homestead-or-later policy, \<open>s\<close> must additionally be below half the curve
  order".
\<close>

definition validateYParity :: "int option \<Rightarrow> error option" where
  "validateYParity v =
     (case v of
        None \<Rightarrow> None
      | Some x \<Rightarrow> if x \<noteq> 0 \<and> x \<noteq> 1 then Some InvalidSignatureError else None)"

definition validateHighS :: "Common \<Rightarrow> int option \<Rightarrow> error option" where
  "validateHighS common s =
     (case s of
        None \<Rightarrow> None
      | Some x \<Rightarrow>
          if common_homestead common \<and> x \<ge> SECP256K1_ORDER_DIV_2
          then Some InvalidSignatureError else None)"

text \<open>
  Modelled from the spec: \<open>checkMaxInitCodeSize\<close> of \<open>./util\<close>, which is not under
  \<open>src/\<close>: the "initcode-size limit", which holds when the oracle gives one.
\<close>

definition checkMaxInitCodeSize :: "Common \<Rightarrow> nat \<Rightarrow> error option" where
  "checkMaxInitCodeSize common len =
     (if common_maxInitCodeSize common \<noteq> 0 \<and> len > common_maxInitCodeSize common
      then Some InitCodeSizeError else None)"

text \<open>
  Modelled from the spec: \<open>isSigned\<close> of \<open>BaseTransaction\<close>, which is not under
  \<open>src/\<close>: "a transaction is signed iff its Signature is present".
\<close>

definition isSigned :: "BlobEIP4844Transaction \<Rightarrow> bool" where
  "isSigned tx \<longleftrightarrow> tx_v tx \<noteq> None \<and> tx_r tx \<noteq> None \<and> tx_s tx \<noteq> None"

section \<open>\<open>packages/tx/src/eip4844Transaction.ts\<close>\<close>

definition TRANSACTION_TYPE :: byte where
  "TRANSACTION_TYPE = 0x05"

definition TRANSACTION_TYPE_BUFFER :: Buffer where
  "TRANSACTION_TYPE_BUFFER = [TRANSACTION_TYPE]"

text \<open>
  The constructor up to \<open>BaseTransaction._validateNotArray\<close>: the base constructor,
  the chain configuration, the access list and the two fee fields.  The data is typed
  here, so \<open>_validateNotArray\<close> has nothing to refuse.
\<close>

record Prelude =
  p_base :: BaseFields
  p_common :: Common
  p_accessList :: AccessListBuffer
  p_maxFeePerGas :: int
  p_maxPriorityFeePerGas :: int

definition constructor_prelude ::
    "tx_params \<Rightarrow> BlobEIP4844TxData \<Rightarrow> TxOptions \<Rightarrow> error + Prelude" where
  "constructor_prelude params txData opts =
     (case BaseTransaction_constructor txData of Inl e \<Rightarrow> Inl e | Inr base \<Rightarrow>
      case getCommon params (opt_common opts) (d_chainId txData) of Inl e \<Rightarrow> Inl e | Inr common \<Rightarrow>
      if \<not> isActivatedEIP common 1559 then Inl EIPNotEnabledError
      else
        (let accessList = (case d_accessList txData of None \<Rightarrow> [] | Some al \<Rightarrow> al)
         in case verifyAccessList accessList of Some e \<Rightarrow> Inl e | None \<Rightarrow>
            case bigIntField (d_maxFeePerGas txData) of Inl e \<Rightarrow> Inl e | Inr maxFeePerGas \<Rightarrow>
            case bigIntField (d_maxPriorityFeePerGas txData) of Inl e \<Rightarrow> Inl e
            | Inr maxPriorityFeePerGas \<Rightarrow>
            case validateCannotExceedMaxInteger [maxFeePerGas, maxPriorityFeePerGas] of
              Some e \<Rightarrow> Inl e
            | None \<Rightarrow>
                Inr \<lparr>p_base = base, p_common = common, p_accessList = accessList,
                     p_maxFeePerGas = maxFeePerGas,
                     p_maxPriorityFeePerGas = maxPriorityFeePerGas\<rparr>))"

text \<open>
  The two fee checks, in the order of the source: \<open>gasLimit * maxFeePerGas\<close> against
  \<open>MAX_INTEGER\<close> first ("gasLimit * maxFeePerGas cannot exceed MAX_INTEGER (2^256-1)"),
  then the order of the two fees ("maxFeePerGas cannot be less than
  maxPriorityFeePerGas").
\<close>

definition checkFeeBounds :: "int \<Rightarrow> int \<Rightarrow> int \<Rightarrow> error option" where
  "checkFeeBounds gasLimit maxFeePerGas maxPriorityFeePerGas =
     (if gasLimit * maxFeePerGas > MAX_INTEGER then Some FieldBoundsError
      else if maxFeePerGas < maxPriorityFeePerGas then Some FeeOrderingError
      else None)"

text \<open>\<open>_validateYParity\<close>, \<open>_validateHighS\<close> and the initcode check under EIP-3860.\<close>

definition checkSignatureAndInitCode :: "Prelude \<Rightarrow> error option" where
  "checkSignatureAndInitCode p =
     (case validateYParity (b_v (p_base p)) of Some e \<Rightarrow> Some e | None \<Rightarrow>
      case validateHighS (p_common p) (b_s (p_base p)) of Some e \<Rightarrow> Some e | None \<Rightarrow>
      if isActivatedEIP (p_common p) 3860
      then checkMaxInitCodeSize (p_common p) (length (b_data (p_base p)))
      else None)"

text \<open>
  The loop over the versioned hashes ("versioned hash is invalid length", "versioned
  hash does not start with KZG commitment version"), which stops at the first hash it
  refuses, and then the count ("tx can contain at most ... blobs").
\<close>

fun checkVersionedHashFormat :: "byte \<Rightarrow> Buffer list \<Rightarrow> error option" where
  "checkVersionedHashFormat ver [] = None"
| "checkVersionedHashFormat ver (hash # hashes) =
     (if length hash \<noteq> 32 then Some VersionedHashFormatError
      else if hash ! 0 \<noteq> ver then Some VersionedHashFormatError
      else checkVersionedHashFormat ver hashes)"

definition checkVersionedHashes :: "tx_params \<Rightarrow> Buffer list \<Rightarrow> error option" where
  "checkVersionedHashes params hashes =
     (case checkVersionedHashFormat (BLOB_COMMITMENT_VERSION_KZG params) hashes of
        Some e \<Rightarrow> Some e
      | None \<Rightarrow>
          if length hashes > LIMIT_BLOBS_PER_TX params then Some BlobCountExceededError
          else None)"

definition BlobEIP4844Transaction_constructor ::
    "tx_params \<Rightarrow> BlobEIP4844TxData \<Rightarrow> TxOptions \<Rightarrow> error + BlobEIP4844Transaction" where
  "BlobEIP4844Transaction_constructor params txData opts =
     (case constructor_prelude params txData opts of Inl e \<Rightarrow> Inl e | Inr p \<Rightarrow>
      case checkFeeBounds (b_gasLimit (p_base p)) (p_maxFeePerGas p) (p_maxPriorityFeePerGas p) of
        Some e \<Rightarrow> Inl e
      | None \<Rightarrow>
      case checkSignatureAndInitCode p of Some e \<Rightarrow> Inl e | None \<Rightarrow>
      case checkVersionedHashes params (d_versionedHashes txData) of Some e \<Rightarrow> Inl e | None \<Rightarrow>
        (let freeze = (case opt_freeze opts of None \<Rightarrow> True | Some f \<Rightarrow> f)
         in Inr \<lparr>tx_nonce = b_nonce (p_base p), tx_gasLimit = b_gasLimit (p_base p),
                 tx_to = b_to (p_base p), tx_value = b_value (p_base p),
                 tx_data = b_data (p_base p), tx_v = b_v (p_base p), tx_r = b_r (p_base p),
                 tx_s = b_s (p_base p), tx_common = p_common p,
                 tx_chainId = int (common_chainId (p_common p)),
                 tx_accessList = p_accessList p,
                 tx_maxPriorityFeePerGas = p_maxPriorityFeePerGas p,
                 tx_maxFeePerGas = p_maxFeePerGas p,
                 tx_maxFeePerDataGas = d_maxFeePerDataGas txData,
                 tx_versionedHashes = d_versionedHashes txData,
                 tx_frozen = freeze\<rparr>))"

text \<open>
  An assignment to a field of the instance, \<open>tx.field = value\<close>, in the strict mode
  that modules run in: on a frozen object it throws a \<open>TypeError\<close> and changes nothing.
  The update \<open>upd\<close> stands for the assignment.
\<close>

definition assignField ::
    "(BlobEIP4844Transaction \<Rightarrow> BlobEIP4844Transaction) \<Rightarrow> BlobEIP4844Transaction
      \<Rightarrow> error + BlobEIP4844Transaction" where
  "assignField upd tx = (if tx_frozen tx then Inl TypeError else Inr (upd tx))"

text \<open>The assignment \<open>tx.nonce = n\<close>.\<close>

definition assignNonce :: "int \<Rightarrow> BlobEIP4844Transaction \<Rightarrow> error + BlobEIP4844Transaction" where
  "assignNonce n = assignField (\<lambda>tx. tx\<lparr>tx_nonce := n\<rparr>)"

text \<open>
  The value that \<open>SignedBlobTransactionType\<close> of \<open>./types\<close> encodes, with the field
  names that \<open>serialize\<close> gives it.  The optional \<open>to\<close> is the pair of a selector and
  a value: selector 0 with \<open>null\<close> is \<open>None\<close>, selector 1 with the address is \<open>Some\<close>.
\<close>

record BlobTransactionMessage =
  m_chainId :: int
  m_nonce :: int
  m_priorityFeePerGas :: int
  m_maxFeePerGas :: int
  m_gas :: int
  m_to :: "Buffer option"
  m_value :: int
  m_data :: Buffer
  m_accessList :: AccessListBuffer
  m_blobVersionedHashes :: "Buffer list"
  m_maxFeePerDataGas :: int

record ECDSASignatureSSZ =
  g_r :: int
  g_s :: int
  g_yParity :: bool

record SignedBlobTransaction =
  message :: BlobTransactionMessage
  signature :: ECDSASignatureSSZ

text \<open>
  The SSZ encoding of this value belongs to the external library \<open>@chainsafe/ssz\<close> and
  to the schema in \<open>./types\<close>, which is not under \<open>src/\<close>; the pair of functions is
  a parameter.  So is \<open>keccak256\<close>.
\<close>

record ssz_codec =
  ssz_serialize :: "SignedBlobTransaction \<Rightarrow> Buffer"
  ssz_deserialize :: "Buffer \<Rightarrow> error + SignedBlobTransaction"

definition signedBlobTransaction :: "BlobEIP4844Transaction \<Rightarrow> SignedBlobTransaction" where
  "signedBlobTransaction tx =
     \<lparr>message =
        \<lparr>m_chainId = int (common_chainId (tx_common tx)), m_nonce = tx_nonce tx,
         m_priorityFeePerGas = tx_maxPriorityFeePerGas tx,
         m_maxFeePerGas = tx_maxFeePerGas tx, m_gas = tx_gasLimit tx, m_to = tx_to tx,
         m_value = tx_value tx, m_data = tx_data tx, m_accessList = tx_accessList tx,
         m_blobVersionedHashes = tx_versionedHashes tx,
         m_maxFeePerDataGas = tx_maxFeePerDataGas tx\<rparr>,
      signature =
        \<lparr>g_r = (case tx_r tx of None \<Rightarrow> 0 | Some r \<Rightarrow> r),
         g_s = (case tx_s tx of None \<Rightarrow> 0 | Some s \<Rightarrow> s),
         g_yParity = (tx_v tx = Some 1)\<rparr>\<rparr>"

definition serialize :: "ssz_codec \<Rightarrow> BlobEIP4844Transaction \<Rightarrow> Buffer" where
  "serialize codec tx =
     TRANSACTION_TYPE_BUFFER @ ssz_serialize codec (signedBlobTransaction tx)"

text \<open>
  \<open>fromSerializedTx\<close>.  The transaction data is the decoded message spread out, with
  \<open>versionedHashes\<close>, \<open>to\<close>, \<open>accessList\<close>, \<open>r\<close>, \<open>s\<close> and \<open>v\<close> added.  The spread
  carries the message's own field names: \<open>chainId\<close>, \<open>nonce\<close>, \<open>maxFeePerGas\<close>,
  \<open>value\<close>, \<open>data\<close> and \<open>maxFeePerDataGas\<close> are names the constructor reads, whereas
  \<open>gas\<close> and \<open>priorityFeePerGas\<close> are not, so that \<open>gasLimit\<close> and
  \<open>maxPriorityFeePerGas\<close> stay undefined.  \<open>Address.fromString\<close> accepts 20 bytes.
\<close>

definition txDataOfDecoded :: "SignedBlobTransaction \<Rightarrow> BlobEIP4844TxData" where
  "txDataOfDecoded decoded =
     (let tx = message decoded
      in \<lparr>d_chainId = Some (m_chainId tx), d_nonce = Some (m_nonce tx), d_gasLimit = None,
          d_to = m_to tx, d_value = Some (m_value tx), d_data = Some (m_data tx),
          d_accessList = Some (m_accessList tx), d_maxPriorityFeePerGas = None,
          d_maxFeePerGas = Some (m_maxFeePerGas tx),
          d_maxFeePerDataGas = m_maxFeePerDataGas tx,
          d_versionedHashes = m_blobVersionedHashes tx,
          d_v = Some (if g_yParity (signature decoded) then 1 else 0),
          d_r = Some (g_r (signature decoded)), d_s = Some (g_s (signature decoded))\<rparr>)"

definition fromSerializedTx ::
    "tx_params \<Rightarrow> ssz_codec \<Rightarrow> Buffer \<Rightarrow> TxOptions \<Rightarrow> error + BlobEIP4844Transaction" where
  "fromSerializedTx params codec serialized opts =
     (case ssz_deserialize codec (drop 1 serialized) of
        Inl e \<Rightarrow> Inl e
      | Inr decoded \<Rightarrow>
          (case m_to (message decoded) of
             Some a \<Rightarrow>
               if length a \<noteq> 20 then Inl InvalidAddressError
               else BlobEIP4844Transaction_constructor params (txDataOfDecoded decoded) opts
           | None \<Rightarrow> BlobEIP4844Transaction_constructor params (txDataOfDecoded decoded) opts))"

text \<open>\<open>getMessageToSign\<close> and \<open>getMessageToVerifySignature\<close>: "Method not implemented."\<close>

definition getMessageToSign :: "BlobEIP4844Transaction \<Rightarrow> error + Buffer" where
  "getMessageToSign tx = Inl MethodNotImplemented"

definition getMessageToVerifySignature :: "BlobEIP4844Transaction \<Rightarrow> error + Buffer" where
  "getMessageToVerifySignature tx = Inl MethodNotImplemented"

definition hash :: "(Buffer \<Rightarrow> Buffer) \<Rightarrow> ssz_codec \<Rightarrow> BlobEIP4844Transaction \<Rightarrow> Buffer" where
  "hash keccak256 codec tx = keccak256 (serialize codec tx)"

text \<open>
  \<open>getSenderPublicKey\<close>.  "Cannot call this method if transaction is not signed" is
  \<open>NotSignedError\<close>; whatever \<open>ecrecover\<close> throws is caught and thrown again as
  "Invalid Signature".
\<close>

definition getSenderPublicKey ::
    "(Buffer \<Rightarrow> Buffer) \<Rightarrow> recover_fn \<Rightarrow> ssz_codec \<Rightarrow> BlobEIP4844Transaction
      \<Rightarrow> error + Buffer" where
  "getSenderPublicKey keccak256 recoverPublicKey codec tx =
     (if \<not> isSigned tx then Inl NotSignedError
      else
        (let msgHash = hash keccak256 codec tx
         in case validateHighS (tx_common tx) (tx_s tx) of
              Some e \<Rightarrow> Inl e
            | None \<Rightarrow>
                (case ecrecover recoverPublicKey msgHash (the (tx_v tx) + 27)
                        (bigIntToUnpaddedBuffer (the (tx_r tx)))
                        (bigIntToUnpaddedBuffer (the (tx_s tx))) of
                   Inl e \<Rightarrow> Inl InvalidSignatureError
                 | Inr key \<Rightarrow> Inr key)))"

section \<open>Example inputs and stand-ins for the external libraries\<close>

text \<open>
  A chain configuration with the fee-market, initcode and blob EIPs active, parameters
  with the version byte 1 and a limit of 16777216 blobs, and the data of a small transaction,
  unsigned and signed.
\<close>

definition example_common :: Common where
  "example_common =
     \<lparr>common_chainId = 1, common_eips = [1559, 2718, 2930, 3860, 4844],
      common_homestead = True, common_maxInitCodeSize = 49152\<rparr>"

definition example_params :: tx_params where
  "example_params =
     \<lparr>BLOB_COMMITMENT_VERSION_KZG = 0x01, LIMIT_BLOBS_PER_TX = 16777216,
      DEFAULT_COMMON =
        (\<lambda>chainId. example_common
           \<lparr>common_chainId := (case chainId of None \<Rightarrow> 1 | Some c \<Rightarrow> nat c)\<rparr>)\<rparr>"

definition example_opts :: "bool option \<Rightarrow> TxOptions" where
  "example_opts freeze = \<lparr>opt_common = Some example_common, opt_freeze = freeze\<rparr>"

definition example_txData :: BlobEIP4844TxData where
  "example_txData =
     \<lparr>d_chainId = None, d_nonce = None, d_gasLimit = Some 21000, d_to = None,
      d_value = None, d_data = None, d_accessList = None,
      d_maxPriorityFeePerGas = Some 10, d_maxFeePerGas = Some 100,
      d_maxFeePerDataGas = 0, d_versionedHashes = [],
      d_v = None, d_r = None, d_s = None\<rparr>"

definition example_signed_txData :: BlobEIP4844TxData where
  "example_signed_txData = example_txData\<lparr>d_v := Some 0, d_r := Some 1, d_s := Some 1\<rparr>"

text \<open>The instances that the constructor builds from the two, frozen or not.\<close>

definition example_tx :: "bool \<Rightarrow> BlobEIP4844Transaction" where
  "example_tx frozen =
     \<lparr>tx_nonce = 0, tx_gasLimit = 21000, tx_to = None, tx_value = 0, tx_data = [],
      tx_v = None, tx_r = None, tx_s = None, tx_common = example_common, tx_chainId = 1,
      tx_accessList = [], tx_maxPriorityFeePerGas = 10, tx_maxFeePerGas = 100,
      tx_maxFeePerDataGas = 0, tx_versionedHashes = [], tx_frozen = frozen\<rparr>"

definition example_signed_tx :: "bool \<Rightarrow> BlobEIP4844Transaction" where
  "example_signed_tx frozen = (example_tx frozen)\<lparr>tx_v := Some 0, tx_r := Some 1, tx_s := Some 1\<rparr>"

text \<open>
  A stand-in for the SSZ library in closed examples: it decodes every input to the value
  \<open>x\<close>, and so it round-trips \<open>x\<close>.
\<close>

definition stub_codec :: "SignedBlobTransaction \<Rightarrow> ssz_codec" where
  "stub_codec x = \<lparr>ssz_serialize = (\<lambda>_. []), ssz_deserialize = (\<lambda>_. Inr x)\<rparr>"

section \<open>Facts about the byte helpers\<close>

lemma bufferToBigInt_Nil [simp]: "bufferToBigInt [] = 0"
  by (simp add: bufferToBigInt_def)

lemma bufferToBigInt_snoc [simp]: "bufferToBigInt (bs @ [b]) = bufferToBigInt bs * 256 + uint b"
  by (simp add: bufferToBigInt_def)

lemma bufferToBigInt_append:
  "bufferToBigInt (as @ bs) = bufferToBigInt as * 256 ^ length bs + bufferToBigInt bs"
proof (induction bs rule: rev_induct)
  case Nil
  show ?case by simp
next
  case (snoc b bs)
  have "bufferToBigInt (as @ bs @ [b]) = bufferToBigInt (as @ bs) * 256 + uint b"
    using bufferToBigInt_snoc [of "as @ bs" b] by simp
  with snoc show ?case by (simp add: algebra_simps)
qed

lemma bufferToBigInt_Cons: "bufferToBigInt (b # bs) = uint b * 256 ^ length bs + bufferToBigInt bs"
  using bufferToBigInt_append [of "[b]" bs] bufferToBigInt_snoc [of "[]" b] by simp

lemma bufferToBigInt_replicate_0 [simp]: "bufferToBigInt (replicate n 0) = 0"
  by (induction n) (simp_all add: bufferToBigInt_Cons)

lemma bufferToBigInt_nonneg: "0 \<le> bufferToBigInt bs"
  by (induction bs rule: rev_induct) simp_all

lemma bufferToBigInt_bound: "bufferToBigInt bs < 256 ^ length bs"
proof (induction bs rule: rev_induct)
  case Nil
  show ?case by simp
next
  case (snoc b bs)
  have "uint b < 256" using uint_bounded [of b] by simp
  with snoc show ?case by simp
qed

lemma be_bytes_small: "0 < n \<Longrightarrow> n < 256 \<Longrightarrow> be_bytes n = [of_nat n]"
  by (subst be_bytes.simps, subst be_bytes.simps) simp

lemma mask7: "(0x7f :: byte) = mask 7"
  by (simp add: mask_eq_exp_minus_1)

lemma low_byte_and_7f: "b < 0x80 \<Longrightarrow> (b::byte) AND 0x7f = b"
  using less_mask_eq [of b 7] by (simp add: mask7)

lemma or_80_and_7f: "b < 0x80 \<Longrightarrow> ((b::byte) OR 0x80) AND 0x7f = b"
proof -
  assume b: "b < 0x80"
  have "(b OR 0x80) AND 0x7f = (b AND 0x7f) OR (0x80 AND 0x7f)"
    by (simp add: bit.conj_disj_distrib2)
  also have "(0x80 :: byte) AND 0x7f = 0" by simp
  finally show ?thesis using b by (simp add: low_byte_and_7f)
qed

lemma top_bit_of_low_byte: "b < 0x80 \<Longrightarrow> drop_bit 7 (uint (b::byte)) = 0"
  by (simp add: drop_bit_eq_div word_less_def)

lemma top_bit_after_or: "drop_bit 7 (uint ((b::byte) OR 0x80)) = 1"
proof -
  have "(0x80::byte) \<le> b OR 0x80" by (rule le_word_or1)
  then have lo: "128 \<le> uint (b OR 0x80)" by (simp add: word_le_def)
  have hi: "uint (b OR 0x80) < 256" using uint_bounded [of "b OR 0x80"] by simp
  from lo hi show ?thesis by (simp add: drop_bit_eq_div) 
qed

lemma replicate_32: "replicate 32 x = x # replicate 31 x"
proof -
  have "(32::nat) = Suc 31" by simp
  then show ?thesis by (simp only: replicate_Suc)
qed

section \<open>The recovery-identifier normalizer\<close>

lemma bigint_rem_2_eq_0: "bigint_rem a 2 = 0 \<longleftrightarrow> a mod 2 = 0"
  by (auto simp: bigint_rem_def sgn_if)

text \<open>
  C1: for every \<open>v\<close>, \<open>calculateSigRecovery\<close> follows the precedence of the
  specification: \<open>v\<close> unchanged in the bands 29..34 and 2..26, \<open>v - 27\<close> at 27 and 28,
  \<open>v\<close> at 0 and 1, and otherwise 0 when \<open>(0 - 35 - v) mod 2\<close> is 0 and 1 when it is
  not.  In particular 27, 28, 37 and 38 normalize to 0, 1, 0 and 1.
\<close>

theorem calculateSigRecovery_precedence:
  "calculateSigRecovery v = normalize_spec v
   \<and> calculateSigRecovery 27 = 0 \<and> calculateSigRecovery 28 = 1
   \<and> calculateSigRecovery 37 = 0 \<and> calculateSigRecovery 38 = 1"
  by (simp add: calculateSigRecovery_def normalize_spec_def bigint_rem_2_eq_0)

section \<open>Signature validation\<close>

text \<open>
  C2: \<open>isValidSignature\<close> returns true exactly when \<open>r\<close> and \<open>s\<close> are 32 bytes long,
  \<open>v\<close> normalizes to 0 or 1, the integer values of \<open>r\<close> and \<open>s\<close> are nonzero and
  below the curve order and, unless \<open>homesteadOrLater\<close> is passed as false, \<open>s\<close> is
  below half the curve order.  Hence a signature that is valid with the policy disabled
  and has \<open>s\<close> at or above half the order is rejected with the policy enabled, be it
  by default or explicitly.
\<close>

theorem isValidSignature_iff:
  "(isValidSignature v r s homesteadOrLater \<longleftrightarrow>
      length r = 32 \<and> length s = 32
      \<and> (calculateSigRecovery v = 0 \<or> calculateSigRecovery v = 1)
      \<and> bufferToBigInt r \<noteq> 0 \<and> bufferToBigInt r < SECP256K1_ORDER
      \<and> bufferToBigInt s \<noteq> 0 \<and> bufferToBigInt s < SECP256K1_ORDER
      \<and> (homesteadOrLater \<noteq> Some False \<longrightarrow> bufferToBigInt s < SECP256K1_ORDER_DIV_2))
   \<and> (isValidSignature v r s (Some False) \<and> SECP256K1_ORDER_DIV_2 \<le> bufferToBigInt s \<longrightarrow>
        \<not> isValidSignature v r s None \<and> \<not> isValidSignature v r s (Some True))"
  by (cases homesteadOrLater)
     (auto simp: isValidSignature_def isValidSigRecovery_def Let_def)

lemma bufferToBigInt_top_bit_only: "bufferToBigInt (0x80 # replicate 31 0) = 2 ^ 255"
  by (simp add: bufferToBigInt_Cons)

lemma bufferToBigInt_one: "bufferToBigInt (replicate 31 0 @ [1]) = 1"
  by (simp)

theorem isValidSignature_iff_witness:
  "isValidSignature 27 (replicate 31 0 @ [1]) (0x80 # replicate 31 0) (Some False)
   \<and> \<not> isValidSignature 27 (replicate 31 0 @ [1]) (0x80 # replicate 31 0) None
   \<and> \<not> isValidSignature 27 (replicate 31 0 @ [1]) (0x80 # replicate 31 0) (Some True)
   \<and> isValidSignature 27 (replicate 31 0 @ [1]) (replicate 31 0 @ [1]) None"
  using isValidSignature_iff [of 27 "replicate 31 0 @ [1]" "0x80 # replicate 31 0" "Some False"]
        isValidSignature_iff [of 27 "replicate 31 0 @ [1]" "replicate 31 0 @ [1]" None]
  by (simp add: bufferToBigInt_top_bit_only calculateSigRecovery_def SECP256K1_ORDER_def SECP256K1_ORDER_DIV_2_def)

section \<open>Encoding and decoding RPC signatures\<close>

lemma fromRpcSig_compact:
  assumes "length r = 32" "length ss = 32"
  shows "fromRpcSig (bufferToHex (setLengthLeft r 32 @ setLengthLeft ss 32)) =
           Inr \<lparr>sig_v = drop_bit 7 (uint (hd ss)) + 27, sig_r = r, sig_s = clear_top_bit ss,
                sig_recovery = calculateSigRecovery (drop_bit 7 (uint (hd ss)))\<rparr>"
proof -
  obtain b bs where ss: "ss = b # bs" using assms(2) by (cases ss) auto
  have d: "drop_bit 7 (uint b) < 27"
    using uint_bounded [of b] by (simp add: drop_bit_eq_div)
  show ?thesis
    using assms d
    by (simp add: fromRpcSig_def bufferToHex_def hexToBuffer_def setLengthLeft_def slice_def
        Let_def ss bufferToInt_def bufferToBigInt_Cons)
qed

lemma fromRpcSig_legacy:
  assumes "length r = 32" "length s = 32" "0 \<le> v" "v < 256"
  shows "fromRpcSig (bufferToHex (setLengthLeft r 32 @ setLengthLeft s 32 @ [of_int v])) =
           Inr \<lparr>sig_v = (if v < 27 then v + 27 else v), sig_r = r, sig_s = s,
                sig_recovery = calculateSigRecovery v\<rparr>"
proof -
  have "uint (word_of_int v :: byte) = v"
    using assms(3,4) by (simp add: uint_word_of_int)
  then show ?thesis
    using assms(1,2)
    by (simp add: fromRpcSig_def bufferToHex_def hexToBuffer_def setLengthLeft_def slice_def
        Let_def bufferToBigInt_Cons)
qed

lemma toBuffer_small: "0 \<le> v \<Longrightarrow> v < 256 \<Longrightarrow> toBuffer v = Inr [of_int v]"
  by (auto simp: toBuffer_def be_bytes_small)

text \<open>
  C3, as amended: for \<open>v\<close> one of 0, 1, 27, 28 and for 32-byte \<open>r\<close> and \<open>s\<close> where the
  top bit of the first byte of \<open>s\<close> is clear, \<open>toCompactSig\<close> and \<open>toRpcSig\<close> both
  succeed, \<open>fromRpcSig\<close> decodes both results, and the two decoded signatures have the
  same \<open>r\<close>, the same \<open>s\<close> and the same recovery field, namely \<open>r\<close>, \<open>s\<close> and the
  normalization of \<open>v\<close>.
\<close>

theorem compact_legacy_agree:
  assumes v: "v \<in> {0, 1, 27, 28}"
    and r: "length r = 32" and s: "length s = 32" and low: "hd s < 0x80"
  shows "\<exists>c l sc sl.
           toCompactSig v r s = Inr c \<and> toRpcSig v r s = Inr l
           \<and> fromRpcSig c = Inr sc \<and> fromRpcSig l = Inr sl
           \<and> sig_r sc = r \<and> sig_r sl = r \<and> sig_s sc = s \<and> sig_s sl = s
           \<and> sig_recovery sc = calculateSigRecovery v
           \<and> sig_recovery sl = calculateSigRecovery v"
proof -
  obtain b bs where sb: "s = b # bs" using s by (cases s) auto
  have b: "b < 0x80" using low by (simp add: sb)
  have rng: "0 \<le> v" "v < 256" using v by auto
  have valid: "isValidSigRecovery (calculateSigRecovery v)"
    using v by (auto simp: isValidSigRecovery_def calculateSigRecovery_def)
  have legacy: "toRpcSig v r s = Inr (bufferToHex (setLengthLeft r 32 @ setLengthLeft s 32 @ [of_int v]))"
    using valid by (simp add: toRpcSig_def Let_def toBuffer_small [OF rng])
  note dl = fromRpcSig_legacy [OF r s rng]
  show ?thesis
  proof (cases "v = 1 \<or> v = 28")
    case True
    then have compact: "toCompactSig v r s = Inr (bufferToHex (setLengthLeft r 32 @ setLengthLeft (set_top_bit s) 32))"
      using valid by (simp add: toCompactSig_def Let_def)
    have len: "length (set_top_bit s) = 32" using s by (simp add: set_top_bit_def sb)
    have rec: "calculateSigRecovery v = 1"
      using True by (auto simp: calculateSigRecovery_def)
    have dc: "fromRpcSig (bufferToHex (setLengthLeft r 32 @ setLengthLeft (set_top_bit s) 32)) =
        Inr \<lparr>sig_v = 28, sig_r = r, sig_s = s, sig_recovery = 1\<rparr>"
      using fromRpcSig_compact [OF r len] b
      by (simp add: set_top_bit_def clear_top_bit_def sb top_bit_after_or or_80_and_7f
          calculateSigRecovery_def)
    show ?thesis
      by (simp add: compact legacy dc dl rec)
  next
    case False
    then have v0: "v = 0 \<or> v = 27" using v by auto
    then have compact: "toCompactSig v r s = Inr (bufferToHex (setLengthLeft r 32 @ setLengthLeft s 32))"
      using valid by (auto simp: toCompactSig_def Let_def bigint_rem_def)
    have rec: "calculateSigRecovery v = 0"
      using v0 by (auto simp: calculateSigRecovery_def)
    have dc: "fromRpcSig (bufferToHex (setLengthLeft r 32 @ setLengthLeft s 32)) =
        Inr \<lparr>sig_v = 27, sig_r = r, sig_s = s, sig_recovery = 0\<rparr>"
      using fromRpcSig_compact [OF r s] b
      by (simp add: clear_top_bit_def sb top_bit_of_low_byte low_byte_and_7f
          calculateSigRecovery_def)
    show ?thesis
      by (simp add: compact legacy dc dl rec)
  qed
qed

theorem compact_legacy_agree_witness:
  "\<exists>c l sc sl.
     toCompactSig 28 (replicate 32 0) (replicate 32 1) = Inr c
     \<and> toRpcSig 28 (replicate 32 0) (replicate 32 1) = Inr l
     \<and> fromRpcSig c = Inr sc \<and> fromRpcSig l = Inr sl
     \<and> sig_r sc = replicate 32 0 \<and> sig_r sl = replicate 32 0
     \<and> sig_s sc = replicate 32 1 \<and> sig_s sl = replicate 32 1
     \<and> sig_recovery sc = 1 \<and> sig_recovery sl = 1"
proof -
  have h: "hd (replicate 32 (1::byte)) < 0x80" by simp
  have c: "calculateSigRecovery 28 = 1" by (simp add: calculateSigRecovery_def)
  show ?thesis
    using compact_legacy_agree [of 28 "replicate 32 0" "replicate 32 1", OF _ _ _ h] c
    by simp
qed

text \<open>
  The claim as stated fails where \<open>s\<close> has its top bit set: at \<open>v = 27\<close> the compact
  encoding leaves \<open>s\<close> as it is, the decoder reads the top bit of \<open>s\<close> as the parity and
  clears it, and the result differs from the legacy decoding in \<open>s\<close> and in the recovery
  field.
\<close>

theorem compact_high_s_counterexample:
  "isValidSigRecovery (calculateSigRecovery 27)
   \<and> length (replicate 32 (0::byte)) = 32 \<and> length (0x80 # replicate 31 (0::byte)) = 32
   \<and> toCompactSig 27 (replicate 32 0) (0x80 # replicate 31 0)
         = Inr (replicate 32 0 @ 0x80 # replicate 31 0)
   \<and> fromRpcSig (replicate 32 0 @ 0x80 # replicate 31 0)
         = Inr \<lparr>sig_v = 28, sig_r = replicate 32 0, sig_s = replicate 32 0, sig_recovery = 1\<rparr>
   \<and> toRpcSig 27 (replicate 32 0) (0x80 # replicate 31 0)
         = Inr (replicate 32 0 @ 0x80 # replicate 31 0 @ [27])
   \<and> fromRpcSig (replicate 32 0 @ 0x80 # replicate 31 0 @ [27])
         = Inr \<lparr>sig_v = 27, sig_r = replicate 32 0, sig_s = 0x80 # replicate 31 0,
                sig_recovery = 0\<rparr>"
  by (simp add: isValidSigRecovery_def calculateSigRecovery_def toCompactSig_def toRpcSig_def
      fromRpcSig_def bufferToHex_def hexToBuffer_def setLengthLeft_def slice_def Let_def
      toBuffer_def be_bytes_small bigint_rem_def clear_top_bit_def bufferToInt_def
      bufferToBigInt_Cons drop_bit_eq_div replicate_32)

text \<open>
  For the EIP-155 values \<open>v \<ge> 35\<close> the parity bit that \<open>toCompactSig\<close> folds into
  \<open>s\<close> is the opposite of what \<open>calculateSigRecovery\<close> returns: at \<open>v = 37\<close> the
  normalization is 0, the compact form decodes to recovery 1, the legacy form to 0.
\<close>

lemma compact_parity_inverted_at_37:
  "calculateSigRecovery 37 = 0
   \<and> toCompactSig 37 (replicate 32 0) (replicate 32 0)
         = Inr (replicate 32 0 @ 0x80 # replicate 31 0)
   \<and> fromRpcSig (replicate 32 0 @ 0x80 # replicate 31 0)
         = Inr \<lparr>sig_v = 28, sig_r = replicate 32 0, sig_s = replicate 32 0, sig_recovery = 1\<rparr>
   \<and> toRpcSig 37 (replicate 32 0) (replicate 32 0) = Inr (replicate 64 0 @ [37])
   \<and> fromRpcSig (replicate 64 0 @ [37])
         = Inr \<lparr>sig_v = 37, sig_r = replicate 32 0, sig_s = replicate 32 0, sig_recovery = 0\<rparr>"
proof -
  have split: "replicate 64 (0::byte) = replicate 32 0 @ replicate 32 0"
    by (simp flip: replicate_add)
  show ?thesis
  by (simp add: isValidSigRecovery_def calculateSigRecovery_def toCompactSig_def toRpcSig_def
      fromRpcSig_def bufferToHex_def hexToBuffer_def setLengthLeft_def slice_def Let_def
      toBuffer_def be_bytes_small bigint_rem_def clear_top_bit_def bufferToInt_def
      bufferToBigInt_Cons drop_bit_eq_div split set_top_bit_def replicate_32)
qed

lemma top_bit_cases: "drop_bit 7 (uint (b::byte)) = 0 \<or> drop_bit 7 (uint b) = 1"
proof -
  have "0 \<le> uint b" by simp
  then have "0 \<le> uint b div 128" by (rule pos_imp_zdiv_nonneg_iff [THEN iffD2, rotated]) simp
  moreover have "uint b div 128 < 2" using uint_bounded [of b] by simp
  ultimately show ?thesis unfolding drop_bit_eq_div by simp linarith
qed

lemma fromRpcSig_64:
  assumes "length sig = 64"
  shows "fromRpcSig sig =
           Inr \<lparr>sig_v = drop_bit 7 (uint (sig ! 32)) + 27, sig_r = take 32 sig,
                sig_s = clear_top_bit (drop 32 sig),
                sig_recovery = drop_bit 7 (uint (sig ! 32))\<rparr>"
proof -
  have d: "drop 32 sig = sig ! 32 # drop 33 sig"
    using assms Cons_nth_drop_Suc [of 32 sig] by simp
  have one: "take (Suc 0) (drop 32 sig) = [sig ! 32]"
    by (simp add: d)
  have t: "take 32 (drop 32 sig) = drop 32 sig"
    using assms by simp
  show ?thesis
    using assms top_bit_cases [of "sig ! 32"]
    by (auto simp: fromRpcSig_def hexToBuffer_def slice_def Let_def bufferToInt_def one t
        bufferToBigInt_Cons calculateSigRecovery_def)
qed

text \<open>
  C4, as amended: \<open>fromRpcSig\<close> fails with \<open>InvalidSignatureLengthError\<close> for every
  input shorter than 64 bytes.  An input of 64 bytes is read in the compact layout: \<open>r\<close>
  is the first 32 bytes, the parity is the top bit of the byte at offset 32 and \<open>s\<close> is
  the last 32 bytes with that bit cleared.  An input of 65 bytes or more, of which the
  bytes from offset 64 on are a \<open>v\<close> that normalizes to 0 or 1, is read in the legacy
  layout: \<open>r\<close> is the first 32 bytes, \<open>s\<close> the next 32 and \<open>v\<close> the integer value of
  all bytes from offset 64 on.
\<close>

theorem fromRpcSig_lengths:
  "(length sig < 64 \<longrightarrow> fromRpcSig sig = Inl InvalidSignatureLengthError)
   \<and> (length sig = 64 \<longrightarrow>
        fromRpcSig sig =
          Inr \<lparr>sig_v = drop_bit 7 (uint (sig ! 32)) + 27, sig_r = take 32 sig,
               sig_s = clear_top_bit (drop 32 sig),
               sig_recovery = drop_bit 7 (uint (sig ! 32))\<rparr>
        \<and> isValidSigRecovery (drop_bit 7 (uint (sig ! 32))))
   \<and> (65 \<le> length sig
        \<and> isValidSigRecovery (calculateSigRecovery (bufferToBigInt (drop 64 sig))) \<longrightarrow>
        fromRpcSig sig =
          Inr \<lparr>sig_v = (if bufferToBigInt (drop 64 sig) < 27 then bufferToBigInt (drop 64 sig) + 27
                         else bufferToBigInt (drop 64 sig)),
               sig_r = take 32 sig, sig_s = take 32 (drop 32 sig),
               sig_recovery = calculateSigRecovery (bufferToBigInt (drop 64 sig))\<rparr>)"
proof (intro conjI impI)
  assume "length sig < 64"
  then show "fromRpcSig sig = Inl InvalidSignatureLengthError"
    by (simp add: fromRpcSig_def hexToBuffer_def Let_def)
next
  assume "length sig = 64"
  then show "fromRpcSig sig =
          Inr \<lparr>sig_v = drop_bit 7 (uint (sig ! 32)) + 27, sig_r = take 32 sig,
               sig_s = clear_top_bit (drop 32 sig),
               sig_recovery = drop_bit 7 (uint (sig ! 32))\<rparr>"
    by (rule fromRpcSig_64)
next
  show "isValidSigRecovery (drop_bit 7 (uint (sig ! 32)))"
    using top_bit_cases [of "sig ! 32"] by (simp add: isValidSigRecovery_def)
next
  assume "65 \<le> length sig
        \<and> isValidSigRecovery (calculateSigRecovery (bufferToBigInt (drop 64 sig)))"
  then show "fromRpcSig sig =
          Inr \<lparr>sig_v = (if bufferToBigInt (drop 64 sig) < 27 then bufferToBigInt (drop 64 sig) + 27
                         else bufferToBigInt (drop 64 sig)),
               sig_r = take 32 sig, sig_s = take 32 (drop 32 sig),
               sig_recovery = calculateSigRecovery (bufferToBigInt (drop 64 sig))\<rparr>"
    by (simp add: fromRpcSig_def hexToBuffer_def slice_def Let_def)
qed

theorem fromRpcSig_lengths_witness:
  "fromRpcSig (replicate 63 0) = Inl InvalidSignatureLengthError
   \<and> fromRpcSig (replicate 32 0 @ 0x81 # replicate 31 0)
       = Inr \<lparr>sig_v = 28, sig_r = replicate 32 0, sig_s = 0x01 # replicate 31 0,
              sig_recovery = 1\<rparr>
   \<and> isValidSigRecovery (calculateSigRecovery (bufferToBigInt (drop 64 (replicate 64 0 @ [1, 0]))))
   \<and> fromRpcSig (replicate 64 0 @ [1, 0])
       = Inr \<lparr>sig_v = 256, sig_r = replicate 32 0, sig_s = replicate 32 0, sig_recovery = 1\<rparr>"
  using fromRpcSig_lengths [of "replicate 63 0"]
    fromRpcSig_lengths [of "replicate 32 0 @ 0x81 # replicate 31 0"]
    fromRpcSig_lengths [of "replicate 64 0 @ [1, 0]"]
  by (simp add: bufferToBigInt_Cons calculateSigRecovery_def bigint_rem_def clear_top_bit_def
      drop_bit_eq_div nth_append isValidSigRecovery_def)

text \<open>
  The claim as stated fails at 66 bytes, a length above 65 that is decoded; its \<open>v\<close>, the
  two zero bytes from offset 64 on, normalizes to 0.
\<close>

theorem fromRpcSig_66_counterexample:
  "length (replicate 66 (0::byte)) = 66
   \<and> fromRpcSig (replicate 66 0)
       = Inr \<lparr>sig_v = 27, sig_r = replicate 32 0, sig_s = replicate 32 0, sig_recovery = 0\<rparr>"
  by (simp add: fromRpcSig_def hexToBuffer_def slice_def Let_def calculateSigRecovery_def)

text \<open>
  The operations that check the normalized value reject a \<open>v\<close> that normalizes to
  neither 0 nor 1.
\<close>

lemma invalid_v_rejected:
  assumes "\<not> isValidSigRecovery (calculateSigRecovery v)"
  shows "ecrecover recoverPublicKey msgHash v r s = Inl InvalidSignatureError"
    and "toRpcSig v r s = Inl InvalidSignatureError"
    and "toCompactSig v r s = Inl InvalidSignatureError"
    and "\<not> isValidSignature v r s homesteadOrLater"
  using assms by (simp_all add: ecrecover_def toRpcSig_def toCompactSig_def isValidSignature_def Let_def)

text \<open>
  C5: every signature-consuming operation must reject a \<open>v\<close> that normalizes to
  neither 0 nor 1.  \<open>fromRpcSig\<close> does not: the 65-byte input with 64 zero bytes and
  the \<open>v\<close> byte 5, which normalizes to 5, is decoded to a signature with \<open>v = 32\<close> and
  the recovery field 5.
\<close>

theorem fromRpcSig_keeps_invalid_v:
  "\<not> isValidSigRecovery (calculateSigRecovery 5)
   \<and> fromRpcSig (replicate 64 0 @ [5])
       = Inr \<lparr>sig_v = 32, sig_r = replicate 32 0, sig_s = replicate 32 0, sig_recovery = 5\<rparr>"
  by (simp add: fromRpcSig_def hexToBuffer_def slice_def Let_def calculateSigRecovery_def
      isValidSigRecovery_def bufferToBigInt_Cons)


section \<open>Facts about the constructor\<close>

lemma be_bytes_0 [simp]: "be_bytes 0 = []"
  by (subst be_bytes.simps) simp

lemma be_bytes_pos: "0 < n \<Longrightarrow> be_bytes n = be_bytes (n div 256) @ [of_nat (n mod 256)]"
  by (subst be_bytes.simps) simp

lemma be_bytes_nonempty: "0 < n \<Longrightarrow> be_bytes n \<noteq> []"
  by (simp add: be_bytes_pos)

lemma uint_of_nat_mod_256: "uint (of_nat (n mod 256) :: byte) = int (n mod 256)"
  by (simp add: uint_nat unat_of_nat)

lemma bufferToBigInt_be_bytes: "bufferToBigInt (be_bytes n) = int n"
proof (induction n rule: be_bytes.induct)
  case (1 n)
  show ?case
  proof (cases "n = 0")
    case True
    then show ?thesis by simp
  next
    case False
    then have "bufferToBigInt (be_bytes n) = int (n div 256) * 256 + int (n mod 256)"
      using 1 by (simp add: be_bytes_pos uint_of_nat_mod_256)
    then show ?thesis by (simp add: zdiv_int zmod_int)
  qed
qed

lemma toBuffer_nonneg:
  "0 \<le> n \<Longrightarrow> \<exists>b. toBuffer n = Inr b \<and> bufferToBigInt b = n \<and> b \<noteq> []"
  by (auto simp: toBuffer_def bufferToBigInt_be_bytes be_bytes_nonempty bufferToBigInt_Cons)

lemma toBuffer_neg: "n < 0 \<Longrightarrow> toBuffer n = Inl NegativeBigIntError"
  by (simp add: toBuffer_def)

lemma bigIntField_eq:
  "bigIntField x = (if supplied x < 0 then Inl NegativeBigIntError else Inr (supplied x))"
proof (cases x)
  case None
  then show ?thesis by (simp add: bigIntField_def supplied_def)
next
  case (Some n)
  then show ?thesis
    using toBuffer_nonneg [of n] by (auto simp: bigIntField_def supplied_def toBuffer_neg)
qed

lemma sigField_eq:
  "sigField x = (if supplied x < 0 then Inl NegativeBigIntError else Inr x)"
proof (cases x)
  case None
  then show ?thesis by (simp add: sigField_def supplied_def)
next
  case (Some n)
  then show ?thesis
    using toBuffer_nonneg [of n] by (auto simp: sigField_def supplied_def toBuffer_neg)
qed

lemma MAX_INTEGER_nonneg: "0 \<le> MAX_INTEGER"
  by (simp add: MAX_INTEGER_def)

lemma validateCannotExceedMaxInteger_eq:
  "validateCannotExceedMaxInteger vals = None \<longleftrightarrow> (\<forall>x \<in> set vals. x \<le> MAX_INTEGER)"
  by (simp add: validateCannotExceedMaxInteger_def list_ex_iff) (meson not_less)

lemma validateCannotExceedMaxInteger_Some:
  "validateCannotExceedMaxInteger vals = Some e \<Longrightarrow> e = FieldBoundsError"
  by (auto simp: validateCannotExceedMaxInteger_def split: if_splits)

lemma to_cases:
  "(case d_to d of None \<Rightarrow> [] | Some a \<Rightarrow> a) = toB \<Longrightarrow>
   (if length toB > 0 then Some toB else None)
     = (case d_to d of None \<Rightarrow> None | Some a \<Rightarrow> if a = [] then None else Some a)"
  by (cases "d_to d") auto

lemma sig_list_le:
  "(\<forall>x \<in> set ((case r of None \<Rightarrow> [] | Some x \<Rightarrow> [x]) @ (case s of None \<Rightarrow> [] | Some x \<Rightarrow> [x])).
       x \<le> MAX_INTEGER)
   \<longleftrightarrow> supplied r \<le> MAX_INTEGER \<and> supplied s \<le> MAX_INTEGER"
  by (cases r; cases s) (simp_all add: supplied_def MAX_INTEGER_nonneg)

lemma BaseTransaction_constructor_eq:
  "BaseTransaction_constructor d =
     (if supplied (d_nonce d) < 0 \<or> supplied (d_gasLimit d) < 0 \<or> supplied (d_value d) < 0
         \<or> supplied (d_v d) < 0 \<or> supplied (d_r d) < 0 \<or> supplied (d_s d) < 0
      then Inl NegativeBigIntError
      else if (\<exists>a. d_to d = Some a \<and> a \<noteq> [] \<and> length a \<noteq> 20) then Inl InvalidAddressError
      else if \<not> (supplied (d_value d) \<le> MAX_INTEGER \<and> supplied (d_gasLimit d) \<le> MAX_INTEGER
                \<and> supplied (d_nonce d) \<le> MAX_INTEGER \<and> supplied (d_r d) \<le> MAX_INTEGER
                \<and> supplied (d_s d) \<le> MAX_INTEGER)
      then Inl FieldBoundsError
      else Inr \<lparr>b_nonce = supplied (d_nonce d), b_gasLimit = supplied (d_gasLimit d),
              b_to = (case d_to d of None \<Rightarrow> None | Some a \<Rightarrow> if a = [] then None else Some a),
              b_value = supplied (d_value d),
              b_data = (case d_data d of None \<Rightarrow> [] | Some x \<Rightarrow> x),
              b_v = d_v d, b_r = d_r d, b_s = d_s d\<rparr>)"
proof -
  have v: "validateCannotExceedMaxInteger
             ([supplied (d_value d), supplied (d_gasLimit d), supplied (d_nonce d)]
               @ (case d_r d of None \<Rightarrow> [] | Some x \<Rightarrow> [x])
               @ (case d_s d of None \<Rightarrow> [] | Some x \<Rightarrow> [x]))
           = (if supplied (d_value d) \<le> MAX_INTEGER \<and> supplied (d_gasLimit d) \<le> MAX_INTEGER
                \<and> supplied (d_nonce d) \<le> MAX_INTEGER \<and> supplied (d_r d) \<le> MAX_INTEGER
                \<and> supplied (d_s d) \<le> MAX_INTEGER then None else Some FieldBoundsError)"
    by (cases "d_r d"; cases "d_s d")
       (simp_all add: validateCannotExceedMaxInteger_def supplied_def MAX_INTEGER_nonneg not_less)
  show ?thesis
  proof (cases "supplied (d_nonce d) < 0 \<or> supplied (d_gasLimit d) < 0 \<or> supplied (d_value d) < 0
         \<or> supplied (d_v d) < 0 \<or> supplied (d_r d) < 0 \<or> supplied (d_s d) < 0")
    case True
    then show ?thesis
      by (auto simp: BaseTransaction_constructor_def bigIntField_eq sigField_eq)
  next
    case False
    then have conv: "bigIntField (d_nonce d) = Inr (supplied (d_nonce d))"
      "bigIntField (d_gasLimit d) = Inr (supplied (d_gasLimit d))"
      "bigIntField (d_value d) = Inr (supplied (d_value d))"
      "sigField (d_v d) = Inr (d_v d)" "sigField (d_r d) = Inr (d_r d)"
      "sigField (d_s d) = Inr (d_s d)"
      by (simp_all add: bigIntField_eq sigField_eq)
    show ?thesis
    proof (cases "d_to d")
      case None
      with False show ?thesis
        by (simp add: BaseTransaction_constructor_def conv Let_def v del: append.simps)
    next
      case (Some a)
      with False show ?thesis
        by (cases "a = []")
           (simp_all add: BaseTransaction_constructor_def conv Let_def v del: append.simps)
    qed
  qed
qed

lemma constructor_prelude_Inr_iff:
  "constructor_prelude params d opts = Inr p \<longleftrightarrow>
     (\<exists>base common.
        BaseTransaction_constructor d = Inr base
        \<and> getCommon params (opt_common opts) (d_chainId d) = Inr common
        \<and> isActivatedEIP common 1559
        \<and> verifyAccessList (case d_accessList d of None \<Rightarrow> [] | Some al \<Rightarrow> al) = None
        \<and> 0 \<le> supplied (d_maxFeePerGas d) \<and> supplied (d_maxFeePerGas d) \<le> MAX_INTEGER
        \<and> 0 \<le> supplied (d_maxPriorityFeePerGas d)
        \<and> supplied (d_maxPriorityFeePerGas d) \<le> MAX_INTEGER
        \<and> p = \<lparr>p_base = base, p_common = common,
                 p_accessList = (case d_accessList d of None \<Rightarrow> [] | Some al \<Rightarrow> al),
                 p_maxFeePerGas = supplied (d_maxFeePerGas d),
                 p_maxPriorityFeePerGas = supplied (d_maxPriorityFeePerGas d)\<rparr>)"
  by (auto simp: constructor_prelude_def Let_def bigIntField_eq validateCannotExceedMaxInteger_def
      split: sum.splits option.splits)

lemma constructor_Inr_iff:
  "BlobEIP4844Transaction_constructor params d opts = Inr tx \<longleftrightarrow>
     (\<exists>p. constructor_prelude params d opts = Inr p
        \<and> checkFeeBounds (b_gasLimit (p_base p)) (p_maxFeePerGas p) (p_maxPriorityFeePerGas p) = None
        \<and> checkSignatureAndInitCode p = None
        \<and> checkVersionedHashes params (d_versionedHashes d) = None
        \<and> tx = \<lparr>tx_nonce = b_nonce (p_base p), tx_gasLimit = b_gasLimit (p_base p),
                 tx_to = b_to (p_base p), tx_value = b_value (p_base p),
                 tx_data = b_data (p_base p), tx_v = b_v (p_base p), tx_r = b_r (p_base p),
                 tx_s = b_s (p_base p), tx_common = p_common p,
                 tx_chainId = int (common_chainId (p_common p)),
                 tx_accessList = p_accessList p,
                 tx_maxPriorityFeePerGas = p_maxPriorityFeePerGas p,
                 tx_maxFeePerGas = p_maxFeePerGas p,
                 tx_maxFeePerDataGas = d_maxFeePerDataGas d,
                 tx_versionedHashes = d_versionedHashes d,
                 tx_frozen = (opt_freeze opts \<noteq> Some False)\<rparr>)"
  by (cases "opt_freeze opts")
     (auto simp: BlobEIP4844Transaction_constructor_def Let_def split: sum.splits option.splits)


lemmas example_defs =
  example_params_def example_opts_def example_txData_def example_signed_txData_def
  example_common_def example_tx_def example_signed_tx_def

lemmas constructor_eval =
  BlobEIP4844Transaction_constructor_def constructor_prelude_def BaseTransaction_constructor_eq
  getCommon_def bigIntField_eq supplied_def isActivatedEIP_def verifyAccessList_def
  validateCannotExceedMaxInteger_def checkFeeBounds_def checkSignatureAndInitCode_def
  validateYParity_def validateHighS_def checkMaxInitCodeSize_def checkVersionedHashes_def
  MAX_INTEGER_def SECP256K1_ORDER_DIV_2_def SECP256K1_ORDER_def Let_def

lemma example_tx_constructed:
  "BlobEIP4844Transaction_constructor example_params example_txData (example_opts None)
     = Inr (example_tx True)"
  by (simp add: example_defs constructor_eval)

lemma example_signed_tx_constructed:
  "BlobEIP4844Transaction_constructor example_params example_signed_txData (example_opts None)
     = Inr (example_signed_tx True)"
  by (simp add: example_defs constructor_eval)

section \<open>Validation in the constructor\<close>

lemma checkVersionedHashFormat_eq:
  "checkVersionedHashFormat ver hs =
     (if \<exists>h \<in> set hs. length h \<noteq> 32 \<or> h ! 0 \<noteq> ver then Some VersionedHashFormatError
      else None)"
  by (induction hs) auto

lemma BaseTransaction_constructor_gasLimit:
  "BaseTransaction_constructor d = Inr b \<Longrightarrow> b_gasLimit b = supplied (d_gasLimit d)"
  by (auto simp: BaseTransaction_constructor_eq split: if_splits)

lemma constructor_prelude_fees:
  assumes "constructor_prelude params d opts = Inr p"
  shows "b_gasLimit (p_base p) = supplied (d_gasLimit d)"
    and "p_maxFeePerGas p = supplied (d_maxFeePerGas d)"
    and "p_maxPriorityFeePerGas p = supplied (d_maxPriorityFeePerGas d)"
  using assms
  by (auto simp: constructor_prelude_Inr_iff BaseTransaction_constructor_gasLimit)

text \<open>
  C7: on data that is valid otherwise, so that the constructor reaches the two fee
  checks (the base constructor, the chain configuration, the access list and the bounds
  of the fee fields raise nothing), construction fails with \<open>FieldBoundsError\<close> if
  \<open>gasLimit * maxFeePerGas\<close> exceeds \<open>2^256 - 1\<close>, and with \<open>FeeOrderingError\<close> if that
  product is within the bound and \<open>maxFeePerGas\<close> is less than \<open>maxPriorityFeePerGas\<close>.
  Whatever the other fields are, data with either defect never yields a transaction
  object: construction aborts with an error.
\<close>

theorem constructor_fee_checks:
  "(constructor_prelude params txData opts = Inr p \<longrightarrow>
      (supplied (d_gasLimit txData) * supplied (d_maxFeePerGas txData) > MAX_INTEGER \<longrightarrow>
         BlobEIP4844Transaction_constructor params txData opts = Inl FieldBoundsError)
      \<and> (supplied (d_gasLimit txData) * supplied (d_maxFeePerGas txData) \<le> MAX_INTEGER
           \<and> supplied (d_maxFeePerGas txData) < supplied (d_maxPriorityFeePerGas txData) \<longrightarrow>
         BlobEIP4844Transaction_constructor params txData opts = Inl FeeOrderingError))
   \<and> (supplied (d_gasLimit txData) * supplied (d_maxFeePerGas txData) > MAX_INTEGER
        \<or> supplied (d_maxFeePerGas txData) < supplied (d_maxPriorityFeePerGas txData) \<longrightarrow>
      (\<exists>e. BlobEIP4844Transaction_constructor params txData opts = Inl e))"
proof (intro conjI impI)
  assume pre: "constructor_prelude params txData opts = Inr p"
    and big: "supplied (d_gasLimit txData) * supplied (d_maxFeePerGas txData) > MAX_INTEGER"
  show "BlobEIP4844Transaction_constructor params txData opts = Inl FieldBoundsError"
    using big
    by (simp add: BlobEIP4844Transaction_constructor_def pre constructor_prelude_fees [OF pre]
        checkFeeBounds_def)
next
  assume pre: "constructor_prelude params txData opts = Inr p"
    and ord: "supplied (d_gasLimit txData) * supplied (d_maxFeePerGas txData) \<le> MAX_INTEGER
           \<and> supplied (d_maxFeePerGas txData) < supplied (d_maxPriorityFeePerGas txData)"
  show "BlobEIP4844Transaction_constructor params txData opts = Inl FeeOrderingError"
    using ord
    by (simp add: BlobEIP4844Transaction_constructor_def pre constructor_prelude_fees [OF pre]
        checkFeeBounds_def)
next
  assume bad: "supplied (d_gasLimit txData) * supplied (d_maxFeePerGas txData) > MAX_INTEGER
        \<or> supplied (d_maxFeePerGas txData) < supplied (d_maxPriorityFeePerGas txData)"
  show "\<exists>e. BlobEIP4844Transaction_constructor params txData opts = Inl e"
  proof (cases "BlobEIP4844Transaction_constructor params txData opts")
    case (Inl e)
    then show ?thesis by simp
  next
    case (Inr tx)
    then obtain p where pre: "constructor_prelude params txData opts = Inr p"
      and fee: "checkFeeBounds (b_gasLimit (p_base p)) (p_maxFeePerGas p)
                  (p_maxPriorityFeePerGas p) = None"
      by (auto simp: constructor_Inr_iff)
    from fee bad show ?thesis
      by (simp add: checkFeeBounds_def constructor_prelude_fees [OF pre] split: if_splits)
  qed
qed

theorem constructor_fee_checks_witness:
  "BlobEIP4844Transaction_constructor example_params
     (example_txData\<lparr>d_gasLimit := Some 2, d_maxFeePerGas := Some (2 ^ 255)\<rparr>)
     (example_opts None) = Inl FieldBoundsError
   \<and> BlobEIP4844Transaction_constructor example_params
     (example_txData\<lparr>d_maxFeePerGas := Some 5\<rparr>) (example_opts None) = Inl FeeOrderingError"
proof -
  obtain p where p: "constructor_prelude example_params
      (example_txData\<lparr>d_gasLimit := Some 2, d_maxFeePerGas := Some (2 ^ 255)\<rparr>)
      (example_opts None) = Inr p"
    by (simp add: example_defs constructor_eval)
  obtain q where q: "constructor_prelude example_params
      (example_txData\<lparr>d_maxFeePerGas := Some 5\<rparr>) (example_opts None) = Inr q"
    by (simp add: example_defs constructor_eval)
  show ?thesis
    using constructor_fee_checks [of example_params
        "example_txData\<lparr>d_gasLimit := Some 2, d_maxFeePerGas := Some (2 ^ 255)\<rparr>"
        "example_opts None" p] p
      constructor_fee_checks [of example_params "example_txData\<lparr>d_maxFeePerGas := Some 5\<rparr>"
        "example_opts None" q] q
    by (simp add: example_txData_def supplied_def MAX_INTEGER_def)
qed

lemma checkVersionedHashes_eq:
  "checkVersionedHashes params hs =
     (if \<exists>h \<in> set hs. length h \<noteq> 32 \<or> h ! 0 \<noteq> BLOB_COMMITMENT_VERSION_KZG params
      then Some VersionedHashFormatError
      else if length hs > LIMIT_BLOBS_PER_TX params then Some BlobCountExceededError
      else None)"
  by (simp add: checkVersionedHashes_def checkVersionedHashFormat_eq)

text \<open>
  C8: on data that is valid otherwise, so that the constructor reaches the versioned
  hashes (every earlier check passes), construction fails with
  \<open>VersionedHashFormatError\<close> if some hash is not 32 bytes long or does not begin with the
  version byte; with \<open>BlobCountExceededError\<close> if the hashes are well formed and there are
  more of them than the limit; and otherwise it returns a transaction that keeps the
  hashes unchanged.  Whatever the other fields are, a transaction object is returned only
  for well-formed hashes within the limit, which it keeps unchanged.
\<close>

theorem constructor_versioned_hashes:
  "(constructor_prelude params txData opts = Inr p
      \<and> checkFeeBounds (b_gasLimit (p_base p)) (p_maxFeePerGas p) (p_maxPriorityFeePerGas p) = None
      \<and> checkSignatureAndInitCode p = None \<longrightarrow>
      ((\<exists>h \<in> set (d_versionedHashes txData).
           length h \<noteq> 32 \<or> h ! 0 \<noteq> BLOB_COMMITMENT_VERSION_KZG params) \<longrightarrow>
         BlobEIP4844Transaction_constructor params txData opts = Inl VersionedHashFormatError)
      \<and> ((\<forall>h \<in> set (d_versionedHashes txData).
             length h = 32 \<and> h ! 0 = BLOB_COMMITMENT_VERSION_KZG params)
           \<and> length (d_versionedHashes txData) > LIMIT_BLOBS_PER_TX params \<longrightarrow>
         BlobEIP4844Transaction_constructor params txData opts = Inl BlobCountExceededError)
      \<and> ((\<forall>h \<in> set (d_versionedHashes txData).
             length h = 32 \<and> h ! 0 = BLOB_COMMITMENT_VERSION_KZG params)
           \<and> length (d_versionedHashes txData) \<le> LIMIT_BLOBS_PER_TX params \<longrightarrow>
         (\<exists>tx. BlobEIP4844Transaction_constructor params txData opts = Inr tx
               \<and> tx_versionedHashes tx = d_versionedHashes txData)))
   \<and> (BlobEIP4844Transaction_constructor params txData opts = Inr tx \<longrightarrow>
        tx_versionedHashes tx = d_versionedHashes txData
        \<and> (\<forall>h \<in> set (d_versionedHashes txData).
              length h = 32 \<and> h ! 0 = BLOB_COMMITMENT_VERSION_KZG params)
        \<and> length (d_versionedHashes txData) \<le> LIMIT_BLOBS_PER_TX params)"
proof (intro conjI impI)
  assume ok: "constructor_prelude params txData opts = Inr p
      \<and> checkFeeBounds (b_gasLimit (p_base p)) (p_maxFeePerGas p) (p_maxPriorityFeePerGas p) = None
      \<and> checkSignatureAndInitCode p = None"
  {
    assume "\<exists>h \<in> set (d_versionedHashes txData).
           length h \<noteq> 32 \<or> h ! 0 \<noteq> BLOB_COMMITMENT_VERSION_KZG params"
    then show "BlobEIP4844Transaction_constructor params txData opts = Inl VersionedHashFormatError"
      using ok by (simp add: BlobEIP4844Transaction_constructor_def checkVersionedHashes_eq)
  }
  {
    assume "(\<forall>h \<in> set (d_versionedHashes txData).
             length h = 32 \<and> h ! 0 = BLOB_COMMITMENT_VERSION_KZG params)
           \<and> length (d_versionedHashes txData) > LIMIT_BLOBS_PER_TX params"
    then show "BlobEIP4844Transaction_constructor params txData opts = Inl BlobCountExceededError"
      using ok by (auto simp: BlobEIP4844Transaction_constructor_def checkVersionedHashes_eq)
  }
  {
    assume "(\<forall>h \<in> set (d_versionedHashes txData).
             length h = 32 \<and> h ! 0 = BLOB_COMMITMENT_VERSION_KZG params)
           \<and> length (d_versionedHashes txData) \<le> LIMIT_BLOBS_PER_TX params"
    then show "\<exists>tx. BlobEIP4844Transaction_constructor params txData opts = Inr tx
               \<and> tx_versionedHashes tx = d_versionedHashes txData"
      using ok by (auto simp: BlobEIP4844Transaction_constructor_def checkVersionedHashes_eq Let_def)
  }
next
  assume c: "BlobEIP4844Transaction_constructor params txData opts = Inr tx"
  then have h: "checkVersionedHashes params (d_versionedHashes txData) = None"
    and v: "tx_versionedHashes tx = d_versionedHashes txData"
    by (auto simp: constructor_Inr_iff)
  from v show "tx_versionedHashes tx = d_versionedHashes txData" .
  from h show "\<forall>h \<in> set (d_versionedHashes txData).
              length h = 32 \<and> h ! 0 = BLOB_COMMITMENT_VERSION_KZG params"
    by (simp add: checkVersionedHashes_eq split: if_splits)
  from h show "length (d_versionedHashes txData) \<le> LIMIT_BLOBS_PER_TX params"
    by (simp add: checkVersionedHashes_eq split: if_splits)
qed


lemma example_prelude:
  "\<exists>p. constructor_prelude example_params (example_txData\<lparr>d_versionedHashes := hs\<rparr>)
         (example_opts None) = Inr p
       \<and> checkFeeBounds (b_gasLimit (p_base p)) (p_maxFeePerGas p) (p_maxPriorityFeePerGas p) = None
       \<and> checkSignatureAndInitCode p = None"
  by (simp add: example_defs constructor_eval)

theorem constructor_versioned_hashes_witness:
  "BlobEIP4844Transaction_constructor example_params
     (example_txData\<lparr>d_versionedHashes := [0x01 # replicate 31 0, 0x02 # replicate 31 0]\<rparr>)
     (example_opts None) = Inl VersionedHashFormatError
   \<and> BlobEIP4844Transaction_constructor example_params
     (example_txData\<lparr>d_versionedHashes := replicate 16777217 (0x01 # replicate 31 0)\<rparr>)
     (example_opts None) = Inl BlobCountExceededError
   \<and> (\<exists>tx. BlobEIP4844Transaction_constructor example_params
           (example_txData\<lparr>d_versionedHashes := [0x01 # replicate 31 0]\<rparr>)
           (example_opts None) = Inr tx
         \<and> tx_versionedHashes tx = [0x01 # replicate 31 0])"
proof -
  obtain p where p: "constructor_prelude example_params
      (example_txData\<lparr>d_versionedHashes := [0x01 # replicate 31 0, 0x02 # replicate 31 0]\<rparr>)
      (example_opts None) = Inr p
    \<and> checkFeeBounds (b_gasLimit (p_base p)) (p_maxFeePerGas p) (p_maxPriorityFeePerGas p) = None
    \<and> checkSignatureAndInitCode p = None"
    using example_prelude by blast
  obtain q where q: "constructor_prelude example_params
      (example_txData\<lparr>d_versionedHashes := replicate 16777217 (0x01 # replicate 31 0)\<rparr>)
      (example_opts None) = Inr q
    \<and> checkFeeBounds (b_gasLimit (p_base q)) (p_maxFeePerGas q) (p_maxPriorityFeePerGas q) = None
    \<and> checkSignatureAndInitCode q = None"
    using example_prelude by blast
  obtain u where u: "constructor_prelude example_params
      (example_txData\<lparr>d_versionedHashes := [0x01 # replicate 31 0]\<rparr>)
      (example_opts None) = Inr u
    \<and> checkFeeBounds (b_gasLimit (p_base u)) (p_maxFeePerGas u) (p_maxPriorityFeePerGas u) = None
    \<and> checkSignatureAndInitCode u = None"
    using example_prelude by blast
  show ?thesis
    using constructor_versioned_hashes [of example_params
        "example_txData\<lparr>d_versionedHashes := [0x01 # replicate 31 0, 0x02 # replicate 31 0]\<rparr>"
        "example_opts None" p] p
      constructor_versioned_hashes [of example_params
        "example_txData\<lparr>d_versionedHashes := replicate 16777217 (0x01 # replicate 31 0)\<rparr>"
        "example_opts None" q] q
      constructor_versioned_hashes [of example_params
        "example_txData\<lparr>d_versionedHashes := [0x01 # replicate 31 0]\<rparr>"
        "example_opts None" u] u
    by (simp add: example_params_def)
qed

section \<open>Freezing\<close>

text \<open>
  C10, as amended: the constructor freezes the instance exactly when the option
  \<open>freeze\<close> is absent or true, whether the transaction carries a signature or not; an
  assignment to a field of an instance so constructed then fails with a \<open>TypeError\<close>.
  With \<open>freeze\<close> false the instance stays mutable and the assignment takes effect.
\<close>

theorem constructor_freeze:
  "BlobEIP4844Transaction_constructor params txData opts = Inr tx \<longrightarrow>
     (tx_frozen tx \<longleftrightarrow> opt_freeze opts \<noteq> Some False)
     \<and> (opt_freeze opts \<noteq> Some False \<longrightarrow> assignField upd tx = Inl TypeError)
     \<and> (opt_freeze opts = Some False \<longrightarrow> assignField upd tx = Inr (upd tx))"
  by (auto simp: constructor_Inr_iff assignField_def)

theorem constructor_freeze_witness:
  "BlobEIP4844Transaction_constructor example_params example_signed_txData (example_opts None)
     = Inr (example_signed_tx True)
   \<and> isSigned (example_signed_tx True)
   \<and> assignNonce 7 (example_signed_tx True) = Inl TypeError
   \<and> BlobEIP4844Transaction_constructor example_params example_txData (example_opts (Some True))
     = Inr (example_tx True)
   \<and> \<not> isSigned (example_tx True)
   \<and> assignNonce 7 (example_tx True) = Inl TypeError"
proof -
  have a: "BlobEIP4844Transaction_constructor example_params example_signed_txData
      (example_opts None) = Inr (example_signed_tx True)"
    by (simp add: example_defs constructor_eval)
  have b: "BlobEIP4844Transaction_constructor example_params example_txData
      (example_opts (Some True)) = Inr (example_tx True)"
    by (simp add: example_defs constructor_eval)
  show ?thesis
    using constructor_freeze [of example_params example_signed_txData "example_opts None"
        "example_signed_tx True" "\<lambda>tx. tx\<lparr>tx_nonce := 7\<rparr>"] a
      constructor_freeze [of example_params example_txData "example_opts (Some True)"
        "example_tx True" "\<lambda>tx. tx\<lparr>tx_nonce := 7\<rparr>"] b
    by (simp add: assignNonce_def example_opts_def isSigned_def example_signed_tx_def
        example_tx_def)
qed

text \<open>
  The claim as stated fails for a signed transaction constructed with \<open>freeze\<close> false:
  the assignment \<open>tx.nonce = 7\<close> succeeds and changes the nonce.
\<close>

theorem signed_unfrozen_counterexample:
  "BlobEIP4844Transaction_constructor example_params example_signed_txData
     (example_opts (Some False)) = Inr (example_signed_tx False)
   \<and> isSigned (example_signed_tx False)
   \<and> assignNonce 7 (example_signed_tx False) = Inr ((example_signed_tx False)\<lparr>tx_nonce := 7\<rparr>)
   \<and> tx_nonce (example_signed_tx False) = 0"
  by (simp add: example_defs constructor_eval isSigned_def assignNonce_def assignField_def)


section \<open>Recovering the sender\<close>

lemma getSenderPublicKey_eq:
  assumes "tx_v tx = Some v" "tx_r tx = Some r" "tx_s tx = Some s"
    and "validateHighS (tx_common tx) (Some s) = None"
  shows "getSenderPublicKey keccak256 recoverPublicKey codec tx =
           (case ecrecover recoverPublicKey
                   (keccak256 (TRANSACTION_TYPE_BUFFER @ ssz_serialize codec
                      \<lparr>message = message (signedBlobTransaction tx),
                       signature = \<lparr>g_r = r, g_s = s, g_yParity = (v = 1)\<rparr>\<rparr>))
                   (v + 27) (bigIntToUnpaddedBuffer r) (bigIntToUnpaddedBuffer s) of
              Inl e \<Rightarrow> Inl InvalidSignatureError
            | Inr key \<Rightarrow> Inr key)"
  using assms
  by (simp add: getSenderPublicKey_def isSigned_def hash_def serialize_def
      signedBlobTransaction_def Let_def)

lemma getSenderPublicKey_unsigned:
  "\<not> isSigned tx \<Longrightarrow>
   getSenderPublicKey keccak256 recoverPublicKey codec tx = Inl NotSignedError"
  by (simp add: getSenderPublicKey_def)

text \<open>
  C6: \<open>getSenderPublicKey\<close> must recover against the hash of the encoding of all
  fields without the signature triple.  It does not: for the signed example transaction
  (\<open>v = 0\<close>, \<open>r = 1\<close>, \<open>s = 1\<close>) the message hash handed to \<open>ecrecover\<close>, next to
  \<open>v + 27 = 27\<close>, is the hash of the type byte followed by the encoding of the message
  together with its own signature \<open>r = 1\<close>, \<open>s = 1\<close>, \<open>yParity = false\<close>; a message to
  sign is not implemented.
\<close>

theorem getSenderPublicKey_hashes_signature:
  "getSenderPublicKey keccak256 recoverPublicKey codec (example_signed_tx True) =
     (case ecrecover recoverPublicKey
             (keccak256 (0x05 # ssz_serialize codec
                \<lparr>message =
                   \<lparr>m_chainId = 1, m_nonce = 0, m_priorityFeePerGas = 10, m_maxFeePerGas = 100,
                    m_gas = 21000, m_to = None, m_value = 0, m_data = [], m_accessList = [],
                    m_blobVersionedHashes = [], m_maxFeePerDataGas = 0\<rparr>,
                 signature = \<lparr>g_r = 1, g_s = 1, g_yParity = False\<rparr>\<rparr>))
             27 [1] [1] of
        Inl e \<Rightarrow> Inl InvalidSignatureError
      | Inr key \<Rightarrow> Inr key)
   \<and> getMessageToSign (example_signed_tx True) = Inl MethodNotImplemented
   \<and> getMessageToVerifySignature (example_signed_tx True) = Inl MethodNotImplemented"
proof -
  have hs: "validateHighS (tx_common (example_signed_tx True)) (Some 1) = None"
    by (simp add: validateHighS_def SECP256K1_ORDER_DIV_2_def SECP256K1_ORDER_def)
  have one: "bigIntToUnpaddedBuffer 1 = [1]"
    using be_bytes_small [of 1] by (simp add: bigIntToUnpaddedBuffer_def)
  show ?thesis
    using getSenderPublicKey_eq [of "example_signed_tx True" 0 1 1 keccak256 recoverPublicKey codec,
        OF _ _ _ hs]
    by (simp add: example_signed_tx_def example_tx_def example_common_def one
        signedBlobTransaction_def TRANSACTION_TYPE_BUFFER_def TRANSACTION_TYPE_def
        getMessageToSign_def getMessageToVerifySignature_def)
qed

section \<open>Serialization round trip\<close>

lemma BaseTransaction_constructor_Inr_D:
  assumes "BaseTransaction_constructor d = Inr b"
  shows "0 \<le> b_nonce b" "b_nonce b \<le> MAX_INTEGER" "0 \<le> b_value b" "b_value b \<le> MAX_INTEGER"
    and "0 \<le> supplied (b_v b)" "0 \<le> supplied (b_r b)" "supplied (b_r b) \<le> MAX_INTEGER"
    and "0 \<le> supplied (b_s b)" "supplied (b_s b) \<le> MAX_INTEGER"
    and "b_to b = None \<or> (\<exists>a. b_to b = Some a \<and> length a = 20)"
  using assms
  by (auto simp: BaseTransaction_constructor_eq split: if_splits option.splits)

lemma BaseTransaction_constructor_decoded:
  assumes "0 \<le> n" "n \<le> MAX_INTEGER" "0 \<le> vl" "vl \<le> MAX_INTEGER"
    and "0 \<le> v" "0 \<le> r" "r \<le> MAX_INTEGER" "0 \<le> s" "s \<le> MAX_INTEGER"
    and "to = None \<or> (\<exists>a. to = Some a \<and> length a = 20)"
  shows "BaseTransaction_constructor
           \<lparr>d_chainId = cid, d_nonce = Some n, d_gasLimit = None, d_to = to,
            d_value = Some vl, d_data = Some dat, d_accessList = al,
            d_maxPriorityFeePerGas = mp, d_maxFeePerGas = mf, d_maxFeePerDataGas = mfd,
            d_versionedHashes = hs, d_v = Some v, d_r = Some r, d_s = Some s\<rparr>
         = Inr \<lparr>b_nonce = n, b_gasLimit = 0, b_to = to, b_value = vl, b_data = dat,
                b_v = Some v, b_r = Some r, b_s = Some s\<rparr>"
  using assms
  by (auto simp: BaseTransaction_constructor_eq supplied_def MAX_INTEGER_nonneg)


lemma SECP256K1_ORDER_DIV_2_pos: "0 < SECP256K1_ORDER_DIV_2"
  by (simp add: SECP256K1_ORDER_DIV_2_def SECP256K1_ORDER_def)

lemma validateHighS_supplied:
  "validateHighS common s = None \<Longrightarrow> validateHighS common (Some (supplied s)) = None"
  using SECP256K1_ORDER_DIV_2_pos
  by (cases s) (auto simp: validateHighS_def supplied_def split: if_splits)

lemma validateYParity_bit: "validateYParity (Some (if b then 1 else 0)) = None"
  by (simp add: validateYParity_def)

text \<open>
  What \<open>fromSerializedTx\<close> returns for the serialization of a constructed transaction,
  when the codec round-trips the encoded value and the options lead to the chain
  configuration of the transaction: the transaction itself, except that \<open>gasLimit\<close> and
  \<open>maxPriorityFeePerGas\<close> are 0, that the signature fields are present, an absent one
  as 0, and that freezing follows the new options.
\<close>

lemma fromSerializedTx_serialize:
  assumes ctor: "BlobEIP4844Transaction_constructor params txData opts = Inr tx"
    and codec: "ssz_deserialize codec (ssz_serialize codec (signedBlobTransaction tx))
                  = Inr (signedBlobTransaction tx)"
    and common: "getCommon params (opt_common opts') (Some (tx_chainId tx)) = Inr (tx_common tx)"
  shows "fromSerializedTx params codec (serialize codec tx) opts' =
           Inr (tx\<lparr>tx_gasLimit := 0, tx_maxPriorityFeePerGas := 0,
                   tx_v := Some (if tx_v tx = Some 1 then 1 else 0),
                   tx_r := Some (supplied (tx_r tx)), tx_s := Some (supplied (tx_s tx)),
                   tx_frozen := (opt_freeze opts' \<noteq> Some False)\<rparr>)"
proof -
  from ctor obtain p where pre: "constructor_prelude params txData opts = Inr p"
    and sg: "checkSignatureAndInitCode p = None"
    and vh: "checkVersionedHashes params (d_versionedHashes txData) = None"
    and tx: "tx = \<lparr>tx_nonce = b_nonce (p_base p), tx_gasLimit = b_gasLimit (p_base p),
                 tx_to = b_to (p_base p), tx_value = b_value (p_base p),
                 tx_data = b_data (p_base p), tx_v = b_v (p_base p), tx_r = b_r (p_base p),
                 tx_s = b_s (p_base p), tx_common = p_common p,
                 tx_chainId = int (common_chainId (p_common p)),
                 tx_accessList = p_accessList p,
                 tx_maxPriorityFeePerGas = p_maxPriorityFeePerGas p,
                 tx_maxFeePerGas = p_maxFeePerGas p,
                 tx_maxFeePerDataGas = d_maxFeePerDataGas txData,
                 tx_versionedHashes = d_versionedHashes txData,
                 tx_frozen = (opt_freeze opts \<noteq> Some False)\<rparr>"
    unfolding constructor_Inr_iff by blast
  from pre obtain base where base: "BaseTransaction_constructor txData = Inr base"
    and eip: "isActivatedEIP (p_common p) 1559"
    and al: "verifyAccessList (p_accessList p) = None"
    and mf: "0 \<le> p_maxFeePerGas p" "p_maxFeePerGas p \<le> MAX_INTEGER"
    and pb: "p_base p = base"
    unfolding constructor_prelude_Inr_iff by auto
  note bd = BaseTransaction_constructor_Inr_D [OF base]
  let ?v = "Some (if b_v base = Some 1 then 1 else 0 :: int)"
  let ?base = "\<lparr>b_nonce = b_nonce base, b_gasLimit = 0, b_to = b_to base,
                 b_value = b_value base, b_data = b_data base,
                 b_v = ?v, b_r = Some (supplied (b_r base)), b_s = Some (supplied (b_s base))\<rparr>"
  let ?p = "\<lparr>p_base = ?base, p_common = p_common p, p_accessList = p_accessList p,
              p_maxFeePerGas = p_maxFeePerGas p, p_maxPriorityFeePerGas = 0\<rparr>"
  let ?d = "txDataOfDecoded (signedBlobTransaction tx)"
  have d: "?d = \<lparr>d_chainId = Some (int (common_chainId (p_common p))), d_nonce = Some (b_nonce base),
                 d_gasLimit = None, d_to = b_to base, d_value = Some (b_value base),
                 d_data = Some (b_data base), d_accessList = Some (p_accessList p),
                 d_maxPriorityFeePerGas = None, d_maxFeePerGas = Some (p_maxFeePerGas p),
                 d_maxFeePerDataGas = d_maxFeePerDataGas txData,
                 d_versionedHashes = d_versionedHashes txData,
                 d_v = ?v, d_r = Some (supplied (b_r base)), d_s = Some (supplied (b_s base))\<rparr>"
    by (simp add: txDataOfDecoded_def signedBlobTransaction_def tx pb supplied_def Let_def)
  have base': "BaseTransaction_constructor ?d = Inr ?base"
    unfolding d
    by (rule BaseTransaction_constructor_decoded) (use bd in auto)
  have common': "getCommon params (opt_common opts') (d_chainId ?d) = Inr (p_common p)"
    unfolding d using common by (simp add: tx)
  have pre': "constructor_prelude params ?d opts' = Inr ?p"
    unfolding constructor_prelude_Inr_iff
    using base' common' eip al mf
    unfolding d
    by (simp add: supplied_def MAX_INTEGER_nonneg)
  have fee': "checkFeeBounds (b_gasLimit (p_base ?p)) (p_maxFeePerGas ?p)
                (p_maxPriorityFeePerGas ?p) = None"
    using mf by (simp add: checkFeeBounds_def MAX_INTEGER_nonneg)
  have sg': "checkSignatureAndInitCode ?p = None"
    using sg validateHighS_supplied [of "p_common p" "b_s base"]
    by (auto simp: checkSignatureAndInitCode_def pb validateYParity_def
        split: option.splits if_splits)
  have vh': "checkVersionedHashes params (d_versionedHashes ?d) = None"
    unfolding d using vh by simp
  have "BlobEIP4844Transaction_constructor params ?d opts' =
          Inr (tx\<lparr>tx_gasLimit := 0, tx_maxPriorityFeePerGas := 0,
                  tx_v := Some (if tx_v tx = Some 1 then 1 else 0),
                  tx_r := Some (supplied (tx_r tx)), tx_s := Some (supplied (tx_s tx)),
                  tx_frozen := (opt_freeze opts' \<noteq> Some False)\<rparr>)"
    unfolding constructor_Inr_iff
    using pre' fee' sg' vh'
    unfolding d
    by (intro exI [of _ ?p]) (simp add: tx pb)
  moreover have "ssz_deserialize codec (drop 1 (serialize codec tx))
                   = Inr (signedBlobTransaction tx)"
    by (simp add: serialize_def TRANSACTION_TYPE_BUFFER_def codec)
  moreover have "m_to (message (signedBlobTransaction tx)) = None
      \<or> (\<exists>a. m_to (message (signedBlobTransaction tx)) = Some a \<and> length a = 20)"
    using bd(10) by (simp add: signedBlobTransaction_def tx pb)
  ultimately show ?thesis
    by (auto simp: fromSerializedTx_def)
qed


lemma constructed_v_parity:
  assumes "BlobEIP4844Transaction_constructor params txData opts = Inr tx"
  shows "tx_v tx = None \<or> tx_v tx = Some 0 \<or> tx_v tx = Some 1"
proof -
  from assms obtain p where "checkSignatureAndInitCode p = None" "tx_v tx = b_v (p_base p)"
    unfolding constructor_Inr_iff by auto
  then show ?thesis
    by (auto simp: checkSignatureAndInitCode_def validateYParity_def
        split: option.splits if_splits)
qed

text \<open>
  C9, as amended: for every signed blob transaction that the constructor has built,
  deserializing its minimal serialization under the transaction's own chain
  configuration succeeds and gives a transaction with the same chain id, nonce,
  \<open>maxFeePerGas\<close>, \<open>maxFeePerDataGas\<close>, \<open>to\<close>, value, data, access list and versioned
  hashes, and the same signature fields \<open>v\<close>, \<open>r\<close> and \<open>s\<close>.
\<close>

theorem blob_tx_roundtrip_signed:
  assumes ctor: "BlobEIP4844Transaction_constructor params txData opts = Inr tx"
    and signed: "isSigned tx"
    and codec: "ssz_deserialize codec (ssz_serialize codec (signedBlobTransaction tx))
                  = Inr (signedBlobTransaction tx)"
    and common: "getCommon params (opt_common opts') (Some (tx_chainId tx)) = Inr (tx_common tx)"
  shows "\<exists>tx'. fromSerializedTx params codec (serialize codec tx) opts' = Inr tx'
           \<and> tx_chainId tx' = tx_chainId tx \<and> tx_nonce tx' = tx_nonce tx
           \<and> tx_maxFeePerGas tx' = tx_maxFeePerGas tx
           \<and> tx_maxFeePerDataGas tx' = tx_maxFeePerDataGas tx
           \<and> tx_to tx' = tx_to tx \<and> tx_value tx' = tx_value tx \<and> tx_data tx' = tx_data tx
           \<and> tx_accessList tx' = tx_accessList tx
           \<and> tx_versionedHashes tx' = tx_versionedHashes tx
           \<and> tx_v tx' = tx_v tx \<and> tx_r tx' = tx_r tx \<and> tx_s tx' = tx_s tx"
proof -
  from signed obtain v r s where vrs: "tx_v tx = Some v" "tx_r tx = Some r" "tx_s tx = Some s"
    by (auto simp: isSigned_def)
  with constructed_v_parity [OF ctor] have v: "v = 0 \<or> v = 1" by simp
  show ?thesis
    using fromSerializedTx_serialize [OF ctor codec common] vrs v
    by (auto simp: supplied_def)
qed

lemma stub_codec_roundtrip:
  "ssz_deserialize (stub_codec x) (ssz_serialize (stub_codec x) x) = Inr x"
  by (simp add: stub_codec_def)

lemma example_getCommon:
  "getCommon example_params (opt_common (example_opts freeze)) (Some 1) = Inr example_common"
  by (simp add: getCommon_def bigIntField_eq supplied_def example_opts_def example_common_def)

theorem blob_tx_roundtrip_signed_witness:
  "\<exists>tx'. fromSerializedTx example_params (stub_codec (signedBlobTransaction (example_signed_tx True)))
           (serialize (stub_codec (signedBlobTransaction (example_signed_tx True)))
              (example_signed_tx True))
           (example_opts None) = Inr tx'
         \<and> tx_chainId tx' = 1 \<and> tx_nonce tx' = 0 \<and> tx_maxFeePerGas tx' = 100
         \<and> tx_maxFeePerDataGas tx' = 0 \<and> tx_to tx' = None \<and> tx_value tx' = 0
         \<and> tx_data tx' = [] \<and> tx_accessList tx' = [] \<and> tx_versionedHashes tx' = []
         \<and> tx_v tx' = Some 0 \<and> tx_r tx' = Some 1 \<and> tx_s tx' = Some 1"
proof -
  have signed: "isSigned (example_signed_tx True)"
    by (simp add: isSigned_def example_signed_tx_def)
  have common: "getCommon example_params (opt_common (example_opts None))
      (Some (tx_chainId (example_signed_tx True))) = Inr (tx_common (example_signed_tx True))"
    using example_getCommon [of None] by (simp add: example_signed_tx_def example_tx_def)
  show ?thesis
    using blob_tx_roundtrip_signed [OF example_signed_tx_constructed signed
        stub_codec_roundtrip common]
    by (simp add: example_signed_tx_def example_tx_def)
qed

text \<open>
  The claim as stated fails for an unsigned transaction: \<open>serialize\<close> writes
  \<open>r = 0\<close>, \<open>s = 0\<close> and \<open>yParity = false\<close> for the absent signature, and
  \<open>fromSerializedTx\<close> reads them back as the signature \<open>v = 0\<close>, \<open>r = 0\<close>, \<open>s = 0\<close>:
  the transaction that comes back is signed.
\<close>

theorem unsigned_roundtrip_counterexample:
  "BlobEIP4844Transaction_constructor example_params
     (example_txData\<lparr>d_gasLimit := None, d_maxPriorityFeePerGas := None\<rparr>) (example_opts None)
     = Inr ((example_tx True)\<lparr>tx_gasLimit := 0, tx_maxPriorityFeePerGas := 0\<rparr>)
   \<and> \<not> isSigned ((example_tx True)\<lparr>tx_gasLimit := 0, tx_maxPriorityFeePerGas := 0\<rparr>)
   \<and> fromSerializedTx example_params
       (stub_codec (signedBlobTransaction
          ((example_tx True)\<lparr>tx_gasLimit := 0, tx_maxPriorityFeePerGas := 0\<rparr>)))
       (serialize
          (stub_codec (signedBlobTransaction
             ((example_tx True)\<lparr>tx_gasLimit := 0, tx_maxPriorityFeePerGas := 0\<rparr>)))
          ((example_tx True)\<lparr>tx_gasLimit := 0, tx_maxPriorityFeePerGas := 0\<rparr>))
       (example_opts None)
     = Inr ((example_tx True)\<lparr>tx_gasLimit := 0, tx_maxPriorityFeePerGas := 0,
              tx_v := Some 0, tx_r := Some 0, tx_s := Some 0\<rparr>)
   \<and> isSigned ((example_tx True)\<lparr>tx_gasLimit := 0, tx_maxPriorityFeePerGas := 0,
              tx_v := Some 0, tx_r := Some 0, tx_s := Some 0\<rparr>)"
proof -
  have c: "BlobEIP4844Transaction_constructor example_params
     (example_txData\<lparr>d_gasLimit := None, d_maxPriorityFeePerGas := None\<rparr>) (example_opts None)
     = Inr ((example_tx True)\<lparr>tx_gasLimit := 0, tx_maxPriorityFeePerGas := 0\<rparr>)"
    by (simp add: example_defs constructor_eval)
  have common: "getCommon example_params (opt_common (example_opts None))
      (Some (tx_chainId ((example_tx True)\<lparr>tx_gasLimit := 0, tx_maxPriorityFeePerGas := 0\<rparr>)))
      = Inr (tx_common ((example_tx True)\<lparr>tx_gasLimit := 0, tx_maxPriorityFeePerGas := 0\<rparr>))"
    using example_getCommon [of None] by (simp add: example_tx_def)
  have f: "opt_freeze (example_opts None) = None"
    by (simp add: example_opts_def)
  have r: "fromSerializedTx example_params
       (stub_codec (signedBlobTransaction
          ((example_tx True)\<lparr>tx_gasLimit := 0, tx_maxPriorityFeePerGas := 0\<rparr>)))
       (serialize
          (stub_codec (signedBlobTransaction
             ((example_tx True)\<lparr>tx_gasLimit := 0, tx_maxPriorityFeePerGas := 0\<rparr>)))
          ((example_tx True)\<lparr>tx_gasLimit := 0, tx_maxPriorityFeePerGas := 0\<rparr>))
       (example_opts None)
     = Inr ((example_tx True)\<lparr>tx_gasLimit := 0, tx_maxPriorityFeePerGas := 0,
              tx_v := Some 0, tx_r := Some 0, tx_s := Some 0\<rparr>)"
    using fromSerializedTx_serialize [OF c stub_codec_roundtrip common]
    by (simp add: f example_tx_def supplied_def)
  show ?thesis
    unfolding c r by (simp add: isSigned_def example_tx_def)
qed

text \<open>
  The two fields that the amended claim leaves out do not survive the round trip: the
  decoded message names them \<open>gas\<close> and \<open>priorityFeePerGas\<close>, the constructor reads
  \<open>gasLimit\<close> and \<open>maxPriorityFeePerGas\<close>, and both come back as 0.
\<close>

lemma roundtrip_loses_gas_fields:
  "fromSerializedTx example_params (stub_codec (signedBlobTransaction (example_signed_tx True)))
     (serialize (stub_codec (signedBlobTransaction (example_signed_tx True)))
        (example_signed_tx True))
     (example_opts None)
   = Inr ((example_signed_tx True)\<lparr>tx_gasLimit := 0, tx_maxPriorityFeePerGas := 0\<rparr>)
   \<and> tx_gasLimit (example_signed_tx True) = 21000
   \<and> tx_maxPriorityFeePerGas (example_signed_tx True) = 10"
proof -
  have common: "getCommon example_params (opt_common (example_opts None))
      (Some (tx_chainId (example_signed_tx True))) = Inr (tx_common (example_signed_tx True))"
    using example_getCommon [of None] by (simp add: example_signed_tx_def example_tx_def)
  have f: "opt_freeze (example_opts None) = None"
    by (simp add: example_opts_def)
  show ?thesis
    using fromSerializedTx_serialize [OF example_signed_tx_constructed stub_codec_roundtrip common]
    by (simp add: f example_signed_tx_def example_tx_def supplied_def)
qed

end
